theory Spec2Isabelle
  imports Main "HOL-Library.AList" "HOL-Library.Word"
begin

section \<open>Regular expressions of the source\<close>

text \<open>
  The room classifiers of \<^verbatim>\<open>server.ts\<close> and \<^verbatim>\<open>saveManager.ts\<close> are JavaScript regular
  expression literals without flags. A room id is the path of \<^verbatim>\<open>request.url\<close>, a string of
  single-byte characters, so a JavaScript string is modelled as a \<^typ>\<open>string\<close>.
  Character classes: a literal character, \<^verbatim>\<open>\d\<close> (the ten ASCII digits), \<^verbatim>\<open>.\<close> (every
  character but a line terminator; of the four line terminators of JavaScript only
  LF and CR are single bytes), a negated one-character class \<^verbatim>\<open>[^c]\<close> (which does match
  line terminators), and the class of all characters.
\<close>

datatype cclass = Lit char | Digit | Dot | NotLit char | AnyChar

definition is_digit :: "char \<Rightarrow> bool" where
  "is_digit c = (c \<in> set ''0123456789'')"

definition is_line_terminator :: "char \<Rightarrow> bool" where
  "is_line_terminator c = (c = CHR 0x0A \<or> c = CHR 0x0D)"

fun cmatch :: "cclass \<Rightarrow> char \<Rightarrow> bool" where
  "cmatch (Lit a) c = (c = a)"
| "cmatch Digit c = is_digit c"
| "cmatch Dot c = (\<not> is_line_terminator c)"
| "cmatch (NotLit a) c = (c \<noteq> a)"
| "cmatch AnyChar c = True"

datatype regex = Eps | Atom cclass | Seq regex regex | Alt regex regex | Star regex

definition Plus :: "regex \<Rightarrow> regex" where
  "Plus r = Seq r (Star r)"

definition Opt :: "regex \<Rightarrow> regex" where
  "Opt r = Alt r Eps"

fun Str :: "string \<Rightarrow> regex" where
  "Str [] = Eps"
| "Str (c # cs) = Seq (Atom (Lit c)) (Str cs)"

text \<open>The words a regular expression denotes.\<close>

inductive_set star :: "string set \<Rightarrow> string set" for A :: "string set" where
  star_nil: "[] \<in> star A"
| star_app: "u \<in> A \<Longrightarrow> v \<in> star A \<Longrightarrow> u @ v \<in> star A"

fun lang :: "regex \<Rightarrow> string set" where
  "lang Eps = {[]}"
| "lang (Atom k) = {[c] | c. cmatch k c}"
| "lang (Seq r s) = {u @ v | u v. u \<in> lang r \<and> v \<in> lang s}"
| "lang (Alt r s) = lang r \<union> lang s"
| "lang (Star r) = star (lang r)"

text \<open>The executable matcher: derivatives, one character at a time.\<close>

fun nullable :: "regex \<Rightarrow> bool" where
  "nullable Eps = True"
| "nullable (Atom k) = False"
| "nullable (Seq r s) = (nullable r \<and> nullable s)"
| "nullable (Alt r s) = (nullable r \<or> nullable s)"
| "nullable (Star r) = True"

text \<open>
  The derivative is kept small by a failure element: a derivative that can match
  nothing is \<open>None\<close>.
\<close>

fun dseq :: "regex option \<Rightarrow> regex \<Rightarrow> regex option" where
  "dseq None s = None"
| "dseq (Some r) s = Some (Seq r s)"

fun dalt :: "regex option \<Rightarrow> regex option \<Rightarrow> regex option" where
  "dalt None b = b"
| "dalt (Some r) None = Some r"
| "dalt (Some r) (Some s) = Some (Alt r s)"

fun deriv :: "char \<Rightarrow> regex \<Rightarrow> regex option" where
  "deriv c Eps = None"
| "deriv c (Atom k) = (if cmatch k c then Some Eps else None)"
| "deriv c (Seq r s) =
     (if nullable r then dalt (dseq (deriv c r) s) (deriv c s) else dseq (deriv c r) s)"
| "deriv c (Alt r s) = dalt (deriv c r) (deriv c s)"
| "deriv c (Star r) = dseq (deriv c r) (Star r)"

fun matches :: "regex \<Rightarrow> string \<Rightarrow> bool" where
  "matches r [] = nullable r"
| "matches r (c # cs) = (case deriv c r of None \<Rightarrow> False | Some r' \<Rightarrow> matches r' cs)"

text \<open>
  \<^verbatim>\<open>/^r$/.test(s)\<close>: the whole string matches. \<^verbatim>\<open>/^r/.test(s)\<close>: some prefix of the
  string matches.
\<close>

definition test_anchored :: "regex \<Rightarrow> string \<Rightarrow> bool" where
  "test_anchored r s = matches r s"

definition test_prefix :: "regex \<Rightarrow> string \<Rightarrow> bool" where
  "test_prefix r s = list_ex (\<lambda>n. matches r (take n s)) [0..<Suc (length s)]"

section \<open>Room classification\<close>

subsection \<open>server.ts\<close>

text \<open>\<^verbatim>\<open>/^repo-\d+(-.*)?$/\<close>\<close>

definition isCodeEditorRoom :: "string \<Rightarrow> bool" where
  "isCodeEditorRoom roomId =
     test_anchored
       (Seq (Str ''repo-'') (Seq (Plus (Atom Digit))
          (Opt (Seq (Atom (Lit CHR ''-'')) (Star (Atom Dot)))))) roomId"

text \<open>\<^verbatim>\<open>/^filetree-\d+$/\<close>\<close>

definition isFileTreeRoom :: "string \<Rightarrow> bool" where
  "isFileTreeRoom roomId = test_anchored (Seq (Str ''filetree-'') (Plus (Atom Digit))) roomId"

text \<open>\<^verbatim>\<open>/^savepoint-\d+$/\<close>\<close>

definition isSavePointRoom :: "string \<Rightarrow> bool" where
  "isSavePointRoom roomId = test_anchored (Seq (Str ''savepoint-'') (Plus (Atom Digit))) roomId"

definition isAllowedRoom :: "string \<Rightarrow> bool" where
  "isAllowedRoom roomId =
     (isCodeEditorRoom roomId \<or> isFileTreeRoom roomId \<or> isSavePointRoom roomId)"

subsection \<open>saveManager.ts\<close>

text \<open>\<^verbatim>\<open>SaveManager.isCodeEditorRoom\<close>: \<^verbatim>\<open>/^repo-\d+-[^\/]+/\<close>, with no anchor at the end.\<close>

definition SaveManager_isCodeEditorRoom :: "string \<Rightarrow> bool" where
  "SaveManager_isCodeEditorRoom roomId =
     test_prefix
       (Seq (Str ''repo-'') (Seq (Plus (Atom Digit))
          (Seq (Atom (Lit CHR ''-'')) (Plus (Atom (NotLit CHR ''/'')))))) roomId"

text \<open>\<^verbatim>\<open>SaveManager.isFileTreeRoom\<close>: \<^verbatim>\<open>/^filetree-\d+$/\<close>\<close>

definition SaveManager_isFileTreeRoom :: "string \<Rightarrow> bool" where
  "SaveManager_isFileTreeRoom roomId =
     test_anchored (Seq (Str ''filetree-'') (Plus (Atom Digit))) roomId"

section \<open>Connection quota (server.ts)\<close>

text \<open>
  \<^verbatim>\<open>connectionTracker\<close> is a \<^verbatim>\<open>Map<string, Map<string, number>>\<close>. A JavaScript map keeps
  its keys in insertion order, so it is an association list: \<^const>\<open>map_of\<close> is \<^verbatim>\<open>get\<close>,
  \<^const>\<open>AList.update\<close> is \<^verbatim>\<open>set\<close> (in place for a known key, at the end for a new
  one) and \<^const>\<open>AList.delete\<close> is \<^verbatim>\<open>delete\<close>. An inner map is reached through its
  IP only, so writing to it is writing the IP's entry.
\<close>

type_synonym tracker = "(string \<times> (string \<times> int) list) list"

definition MAX_CONNECTIONS_PER_IP_PER_ROOM :: int where
  "MAX_CONNECTIONS_PER_IP_PER_ROOM = 10"

definition trackConnection :: "string \<Rightarrow> string \<Rightarrow> tracker \<Rightarrow> bool \<times> tracker" where
  "trackConnection clientIP roomId ct =
     (let ct1 = (if map_of ct clientIP = None then AList.update clientIP [] ct else ct);
          ipRooms = (case map_of ct1 clientIP of Some m \<Rightarrow> m | None \<Rightarrow> []);
          currentCount = (case map_of ipRooms roomId of Some n \<Rightarrow> n | None \<Rightarrow> 0)
      in if currentCount \<ge> MAX_CONNECTIONS_PER_IP_PER_ROOM then (False, ct1)
         else (True, AList.update clientIP (AList.update roomId (currentCount + 1) ipRooms) ct1))"

definition untrackConnection :: "string \<Rightarrow> string \<Rightarrow> tracker \<Rightarrow> tracker" where
  "untrackConnection clientIP roomId ct =
     (case map_of ct clientIP of
        None \<Rightarrow> ct
      | Some ipRooms \<Rightarrow>
          (let currentCount = (case map_of ipRooms roomId of Some n \<Rightarrow> n | None \<Rightarrow> 0)
           in if currentCount \<le> 1 then
                (let ipRooms' = AList.delete roomId ipRooms
                 in if ipRooms' = [] then AList.delete clientIP ct
                    else AList.update clientIP ipRooms' ct)
              else AList.update clientIP (AList.update roomId (currentCount - 1) ipRooms) ct))"

text \<open>The count of a pair, as both functions read it: \<^verbatim>\<open>ipRooms.get(roomId) || 0\<close>.\<close>

definition quota :: "tracker \<Rightarrow> string \<Rightarrow> string \<Rightarrow> int" where
  "quota ct clientIP roomId =
     (case map_of ct clientIP of
        None \<Rightarrow> 0
      | Some ipRooms \<Rightarrow> (case map_of ipRooms roomId of Some n \<Rightarrow> n | None \<Rightarrow> 0))"

text \<open>The number stored for a pair, when one is stored.\<close>

definition stored :: "tracker \<Rightarrow> string \<Rightarrow> string \<Rightarrow> int option" where
  "stored ct clientIP roomId =
     (case map_of ct clientIP of None \<Rightarrow> None | Some ipRooms \<Rightarrow> map_of ipRooms roomId)"

text \<open>
  The tables the server can be in: it starts empty, and is written by
  \<^const>\<open>trackConnection\<close>, \<^const>\<open>untrackConnection\<close> and \<^verbatim>\<open>connectionTracker.clear()\<close> only.
\<close>

inductive reachable :: "tracker \<Rightarrow> bool" where
  reach_empty: "reachable []"
| reach_track: "reachable ct \<Longrightarrow> reachable (snd (trackConnection clientIP roomId ct))"
| reach_untrack: "reachable ct \<Longrightarrow> reachable (untrackConnection clientIP roomId ct)"

fun track_times :: "nat \<Rightarrow> string \<Rightarrow> string \<Rightarrow> tracker \<Rightarrow> tracker" where
  "track_times 0 clientIP roomId ct = ct"
| "track_times (Suc n) clientIP roomId ct =
     track_times n clientIP roomId (snd (trackConnection clientIP roomId ct))"

section \<open>YjsDocumentManager (yjsDocumentManager.ts)\<close>

text \<open>
  The CRDT library \<^verbatim>\<open>yjs\<close> is not code of this repository; the manager calls four of its
  operations, which are a parameter of the model: \<^verbatim>\<open>new Y.Doc()\<close>, \<^verbatim>\<open>Y.applyUpdate\<close>,
  \<^verbatim>\<open>Y.encodeStateAsUpdate\<close>, and \<^verbatim>\<open>doc.getText(name).toString()\<close> (\<open>None\<close> when it
  throws). \<^verbatim>\<open>Y.applyUpdate\<close> changes the document it is given in place, and the manager
  holds that very document: the call either returns (\<open>Applied\<close>) or throws (\<open>Threw\<close>), and
  in both cases it leaves a document behind, which after a throw may or may not be the
  document as it was. The model writes the document the call left under its room.
\<close>

type_synonym bytes = "8 word list"

datatype 'doc apply_result = Applied 'doc | Threw 'doc

record 'doc yjs =
  Y_Doc :: "'doc"
  Y_applyUpdate :: "'doc \<Rightarrow> bytes \<Rightarrow> 'doc apply_result"
  Y_encodeStateAsUpdate :: "'doc \<Rightarrow> bytes"
  Y_getText :: "'doc \<Rightarrow> string \<Rightarrow> string option"

record 'doc YjsDocumentManager =
  documents :: "(string \<times> 'doc) list"
  documentStates :: "(string \<times> bytes) list"

datatype js_error = Error string | ApiError nat string

text \<open>
  A block that may throw returns \<open>Inl\<close> with the error and the state at the throw, and
  \<^verbatim>\<open>try { body } catch (e) { handler }\<close> is \<open>catch body handler\<close>.
\<close>

definition catch ::
  "(js_error \<times> 's) + 's \<Rightarrow> (js_error \<Rightarrow> 's \<Rightarrow> (js_error \<times> 's) + 's) \<Rightarrow> (js_error \<times> 's) + 's"
where
  "catch body handler = (case body of Inl (e, st) \<Rightarrow> handler e st | Inr st \<Rightarrow> Inr st)"

definition getDocumentContent :: "'doc yjs \<Rightarrow> string \<Rightarrow> 'doc YjsDocumentManager \<Rightarrow> string" where
  "getDocumentContent Y roomId ym =
     (case map_of (documents ym) roomId of
        None \<Rightarrow> ''''
      | Some doc \<Rightarrow>
          (case Y_getText Y doc ''monaco-content'' of
             Some content \<Rightarrow> content
           | None \<Rightarrow> ''''))"

definition handleYjsMessage ::
  "'doc yjs \<Rightarrow> string \<Rightarrow> bytes \<Rightarrow> 'doc YjsDocumentManager
     \<Rightarrow> (js_error \<times> 'doc YjsDocumentManager) + 'doc YjsDocumentManager"
where
  "handleYjsMessage Y roomId message ym =
     catch
       (if message = [] then Inr ym
        else
          (let ym1 = (if map_of (documents ym) roomId = None
                      then ym\<lparr>documents := AList.update roomId (Y_Doc Y) (documents ym)\<rparr>
                      else ym)
           in catch
                (case map_of (documents ym1) roomId of
                   None \<Rightarrow> Inl (Error ''TypeError'', ym1)
                 | Some doc \<Rightarrow>
                     (case Y_applyUpdate Y doc message of
                        Threw doc' \<Rightarrow>
                          Inl (Error ''applyUpdate'',
                               ym1\<lparr>documents := AList.update roomId doc' (documents ym1)\<rparr>)
                      | Applied doc' \<Rightarrow>
                          Inr (ym1\<lparr>documents := AList.update roomId doc' (documents ym1),
                                    documentStates :=
                                      AList.update roomId (Y_encodeStateAsUpdate Y doc')
                                        (documentStates ym1)\<rparr>)))
                (\<lambda>updateError st. Inr st)))
       (\<lambda>error st. Inr st)"

text \<open>\<^verbatim>\<open>getDocumentInfo\<close>: exists, contentLength, stateSize.\<close>

definition getDocumentInfo ::
  "'doc yjs \<Rightarrow> string \<Rightarrow> 'doc YjsDocumentManager \<Rightarrow> bool \<times> nat \<times> nat" where
  "getDocumentInfo Y roomId ym =
     (case map_of (documents ym) roomId of
        None \<Rightarrow> (False, 0, 0)
      | Some doc \<Rightarrow>
          (True, length (getDocumentContent Y roomId ym),
           (case map_of (documentStates ym) roomId of None \<Rightarrow> 0 | Some state \<Rightarrow> length state)))"

text \<open>
  \<^verbatim>\<open>cleanupDocument\<close>: \<^verbatim>\<open>doc.destroy()\<close> of the library is taken to return, so both entries
  of the room are deleted.
\<close>

definition cleanupDocument :: "string \<Rightarrow> 'doc YjsDocumentManager \<Rightarrow> 'doc YjsDocumentManager" where
  "cleanupDocument roomId ym =
     ym\<lparr>documents := AList.delete roomId (documents ym),
        documentStates := AList.delete roomId (documentStates ym)\<rparr>"

text \<open>
  A stand-in for the library, to run the manager on; its frames are not those of
  \<^verbatim>\<open>yjs\<close>. A document is the list of the updates integrated into it. An update whose
  first byte is 0 is integrated. An update whose first byte is 1 is integrated and the call
  then throws, as for a frame that is damaged after its first structs. Every other update
  is refused with the document untouched. The state is the concatenation of the updates,
  and the text \<^verbatim>\<open>monaco-content\<close> is the characters of the integrated bytes.
\<close>

definition toyY :: "(bytes list) yjs" where
  "toyY = \<lparr>Y_Doc = [],
           Y_applyUpdate = (\<lambda>doc u. case u of [] \<Rightarrow> Threw doc
                                       | b # bs \<Rightarrow> if b = 0 then Applied (doc @ [bs])
                                                  else if b = 1 then Threw (doc @ [bs])
                                                  else Threw doc),
           Y_encodeStateAsUpdate = concat,
           Y_getText = (\<lambda>doc name. if name = ''monaco-content''
                                   then Some (map (\<lambda>b. char_of (unat b)) (concat doc))
                                   else Some '''')\<rparr>"

section \<open>RoomManager\<close>

text \<open>
  An \<^verbatim>\<open>ExtendedWebSocket\<close> is a mutable object shared by the rooms and the handlers: rooms
  hold references, and the objects live in a store. \<^verbatim>\<open>readyState\<close> 1 is OPEN, 2 is CLOSING.
  A \<^verbatim>\<open>Set\<close> of sockets is the list of its members in insertion order. Times are
  milliseconds.
\<close>

type_synonym ws_ref = nat

record ExtendedWebSocket =
  ws_readyState :: nat
  ws_roomId :: "string option"
  ws_clientId :: "string option"
  ws_isAlive :: "bool option"
  ws_connectedAt :: "nat option"
  ws_lastActivity :: "nat option"
  ws_socket :: "string option option"

record RoomInfo =
  room_id :: string
  room_clients :: "ws_ref list"
  room_createdAt :: nat
  room_lastActivity :: nat

text \<open>
  The state of the process: the fields of the \<^verbatim>\<open>RoomManager\<close>, the \<^verbatim>\<open>connectionTracker\<close> of
  \<^verbatim>\<open>server.ts\<close>, the store of the sockets, and the one-shot timers of the runtime that are
  pending (a timer handle is a number; a pending timer has a deadline and the room its
  callback was created for).
\<close>

record 'doc server =
  rooms :: "(string \<times> RoomInfo) list"
  gracePeriods :: "(string \<times> nat) list"
  yjsManager :: "'doc YjsDocumentManager"
  gracePeriodMs :: nat
  connectionTracker :: tracker
  sockets :: "ws_ref \<Rightarrow> ExtendedWebSocket"
  timers :: "(nat \<times> nat \<times> string) list"
  nextTimer :: nat

text \<open>The calls with an effect, in the order they are made.\<close>

datatype event =
    WsClose ws_ref nat string
  | WsSend ws_ref bytes bool
  | HandleYjsMessage string bytes
  | SetTimeout nat nat string
  | ClearTimeout nat
  | ClientsAdd string ws_ref
  | ClientsDelete string ws_ref
  | WsPing ws_ref
  | WsTerminate ws_ref
  | TrackConnection string string bool
  | UntrackConnection string string

text \<open>A string is truthy when it is defined and not empty.\<close>

definition truthy :: "string option \<Rightarrow> bool" where
  "truthy x = (case x of None \<Rightarrow> False | Some s \<Rightarrow> s \<noteq> [])"

text \<open>
  \<^verbatim>\<open>ws.close(code, reason)\<close> of the transport: an open socket starts closing.
\<close>

definition ws_close :: "ws_ref \<Rightarrow> nat \<Rightarrow> string \<Rightarrow> 'doc server \<Rightarrow> 'doc server \<times> event list" where
  "ws_close ws code reason s =
     (s\<lparr>sockets := (sockets s)
          (ws := (sockets s ws)\<lparr>ws_readyState :=
                    (if ws_readyState (sockets s ws) = 1 then 2 else ws_readyState (sockets s ws))\<rparr>)\<rparr>,
      [WsClose ws code reason])"

definition isActiveClient :: "ExtendedWebSocket \<Rightarrow> bool" where
  "isActiveClient client =
     (ws_readyState client = 1 \<and> ws_isAlive client \<noteq> Some False
      \<and> truthy (ws_clientId client) \<and> truthy (ws_roomId client))"

definition getActiveClientCount :: "'doc server \<Rightarrow> string \<Rightarrow> nat" where
  "getActiveClientCount s roomId =
     (case map_of (rooms s) roomId of
        None \<Rightarrow> 0
      | Some room \<Rightarrow> length (filter (\<lambda>client. isActiveClient (sockets s client)) (room_clients room)))"

definition addClient ::
  "nat \<Rightarrow> string \<Rightarrow> ws_ref \<Rightarrow> 'doc server \<Rightarrow> nat \<times> 'doc server \<times> event list" where
  "addClient now roomId client s =
     (let (s1, ev1) =
            (case map_of (gracePeriods s) roomId of
               Some timeout \<Rightarrow>
                 (s\<lparr>timers := AList.delete timeout (timers s),
                    gracePeriods := AList.delete roomId (gracePeriods s)\<rparr>,
                  [ClearTimeout timeout])
             | None \<Rightarrow> (s, []));
          s2 = (if map_of (rooms s1) roomId = None
                then s1\<lparr>rooms := AList.update roomId
                          \<lparr>room_id = roomId, room_clients = [],
                           room_createdAt = now, room_lastActivity = now\<rparr> (rooms s1)\<rparr>
                else s1)
      in case map_of (rooms s2) roomId of
           None \<Rightarrow> (0, s2, ev1)
         | Some room \<Rightarrow>
             if client \<in> set (room_clients room) then (getActiveClientCount s2 roomId, s2, ev1)
             else
               (let s3 = s2\<lparr>rooms := AList.update roomId
                               (room\<lparr>room_clients := room_clients room @ [client],
                                     room_lastActivity := now\<rparr>) (rooms s2)\<rparr>
                in (getActiveClientCount s3 roomId, s3, ev1 @ [ClientsAdd roomId client])))"

text \<open>\<^verbatim>\<open>cleanupRoom\<close>: close every open member, delete the room, then its document.\<close>

fun closeClients :: "ws_ref list \<Rightarrow> 'doc server \<Rightarrow> 'doc server \<times> event list" where
  "closeClients [] s = (s, [])"
| "closeClients (client # rest) s =
     (if ws_readyState (sockets s client) = 1
      then (let (s1, ev1) = ws_close client 1000 ''Room cleanup'' s;
                (s2, ev2) = closeClients rest s1
            in (s2, ev1 @ ev2))
      else closeClients rest s)"

definition cleanupRoom :: "string \<Rightarrow> 'doc server \<Rightarrow> 'doc server \<times> event list" where
  "cleanupRoom roomId s =
     (case map_of (rooms s) roomId of
        None \<Rightarrow> (s, [])
      | Some room \<Rightarrow>
          (let (s1, ev) = closeClients (room_clients room) s;
               s2 = s1\<lparr>rooms := AList.delete roomId (rooms s1)\<rparr>;
               s3 = (if SaveManager_isCodeEditorRoom roomId
                     then s2\<lparr>yjsManager := cleanupDocument roomId (yjsManager s2)\<rparr>
                     else s2)
           in (s3, ev)))"

definition startGracePeriod :: "nat \<Rightarrow> string \<Rightarrow> 'doc server \<Rightarrow> 'doc server \<times> event list" where
  "startGracePeriod now roomId s =
     (if SaveManager_isFileTreeRoom roomId then cleanupRoom roomId s
      else if \<not> SaveManager_isCodeEditorRoom roomId then cleanupRoom roomId s
      else
        (let timeout = nextTimer s
         in (s\<lparr>timers := AList.update timeout (now + gracePeriodMs s, roomId) (timers s),
               nextTimer := Suc timeout,
               gracePeriods := AList.update roomId timeout (gracePeriods s)\<rparr>,
             [SetTimeout timeout (now + gracePeriodMs s) roomId])))"

text \<open>
  The callback of a grace timer, run by the runtime when the timer is pending and due;
  \<open>None\<close> when the timer is not pending (it ran already or was cleared) or is not due.
\<close>

definition graceTimeout :: "nat \<Rightarrow> nat \<Rightarrow> 'doc server \<Rightarrow> ('doc server \<times> event list) option" where
  "graceTimeout now timeout s =
     (case map_of (timers s) timeout of
        None \<Rightarrow> None
      | Some (deadline, roomId) \<Rightarrow>
          if now < deadline then None
          else
            (let s0 = s\<lparr>timers := AList.delete timeout (timers s)\<rparr>;
                 (s1, ev) = (if map_of (rooms s0) roomId = None \<or> getActiveClientCount s0 roomId = 0
                             then cleanupRoom roomId s0 else (s0, []))
             in Some (s1\<lparr>gracePeriods := AList.delete roomId (gracePeriods s1)\<rparr>, ev)))"

definition removeClient ::
  "nat \<Rightarrow> string \<Rightarrow> ws_ref \<Rightarrow> 'doc server \<Rightarrow> nat \<times> 'doc server \<times> event list" where
  "removeClient now roomId client s =
     (case map_of (rooms s) roomId of
        None \<Rightarrow> (0, s, [])
      | Some room \<Rightarrow>
          if client \<notin> set (room_clients room) then (getActiveClientCount s roomId, s, [])
          else
            (let s1 = s\<lparr>rooms := AList.update roomId
                            (room\<lparr>room_clients := removeAll client (room_clients room),
                                  room_lastActivity := now\<rparr>) (rooms s)\<rparr>;
                 remainingCount = getActiveClientCount s1 roomId
             in if remainingCount = 0
                then (let (s2, ev) = startGracePeriod now roomId s1
                      in (remainingCount, s2, ClientsDelete roomId client # ev))
                else (remainingCount, s1, [ClientsDelete roomId client])))"

text \<open>
  \<^verbatim>\<open>broadcast\<close>. The first loop over the members carries the count of the sends that
  returned, the dead clients and the calls made; \<open>sendThrows\<close> tells for which sockets
  \<^verbatim>\<open>client.send\<close> throws. The second loop deletes the dead clients from the set.
\<close>

fun broadcast_forEach ::
  "(ws_ref \<Rightarrow> bool) \<Rightarrow> (ws_ref \<Rightarrow> ExtendedWebSocket) \<Rightarrow> bytes \<Rightarrow> ws_ref \<Rightarrow> ws_ref list
     \<Rightarrow> nat \<times> ws_ref list \<times> event list \<Rightarrow> nat \<times> ws_ref list \<times> event list" where
  "broadcast_forEach sendThrows socks message sender [] acc = acc"
| "broadcast_forEach sendThrows socks message sender (client # rest) (broadcastCount, deadClients, ev) =
     broadcast_forEach sendThrows socks message sender rest
       (if client \<noteq> sender then
          (if ws_readyState (socks client) = 1 then
             (if sendThrows client
              then (broadcastCount, deadClients @ [client], ev @ [WsSend client message False])
              else (broadcastCount + 1, deadClients, ev @ [WsSend client message True]))
           else (broadcastCount, deadClients @ [client], ev))
        else (broadcastCount, deadClients, ev))"

fun deleteClients :: "ws_ref list \<Rightarrow> ws_ref list \<Rightarrow> ws_ref list" where
  "deleteClients [] clients = clients"
| "deleteClients (deadClient # rest) clients = deleteClients rest (removeAll deadClient clients)"

definition broadcast ::
  "'doc yjs \<Rightarrow> (ws_ref \<Rightarrow> bool) \<Rightarrow> nat \<Rightarrow> string \<Rightarrow> bytes \<Rightarrow> ws_ref \<Rightarrow> 'doc server
     \<Rightarrow> (js_error \<times> 'doc server \<times> event list) + (nat \<times> 'doc server \<times> event list)" where
  "broadcast Y sendThrows now roomId message sender s =
     (case map_of (rooms s) roomId of
        None \<Rightarrow> Inr (0, s, [])
      | Some room \<Rightarrow>
          (case (if SaveManager_isCodeEditorRoom roomId
                 then (case handleYjsMessage Y roomId message (yjsManager s) of
                         Inl (e, ym) \<Rightarrow>
                           Inl (e, s\<lparr>yjsManager := ym\<rparr>, [HandleYjsMessage roomId message])
                       | Inr ym \<Rightarrow> Inr (s\<lparr>yjsManager := ym\<rparr>, [HandleYjsMessage roomId message]))
                 else Inr (s, []))
           of
             Inl err \<Rightarrow> Inl err
           | Inr (s1, ev1) \<Rightarrow>
               (let (broadcastCount, deadClients, ev2) =
                      broadcast_forEach sendThrows (sockets s1) message sender
                        (room_clients room) (0, [], []);
                    s2 = s1\<lparr>rooms := AList.update roomId
                                (room\<lparr>room_clients := deleteClients deadClients (room_clients room),
                                      room_lastActivity := now\<rparr>) (rooms s1)\<rparr>
                in Inr (broadcastCount, s2,
                        ev1 @ ev2 @ map (ClientsDelete roomId) deadClients))))"

section \<open>SaveManager (saveManager.ts)\<close>

text \<open>
  \<^verbatim>\<open>parseInt(digits, 10)\<close> on a string of digits returns a double. Up to \<open>2 ^ 53\<close> the
  double is the number the digits denote. Above, it is a double near that number, which
  the model does not compute: it keeps the digits.
\<close>

datatype js_integer = Exact nat | Rounded string

definition parseInt10 :: "string \<Rightarrow> js_integer" where
  "parseInt10 ds =
     (let n = foldl (\<lambda>n c. 10 * n + (of_char c - 48)) 0 ds
      in if n \<le> 2 ^ 53 then Exact n else Rounded ds)"

record ParsedRoomId =
  repositoryId :: js_integer
  filePath :: string

text \<open>
  \<^verbatim>\<open>roomId.match(/^repo-(\d+)-(.+)$/)\<close>. The digits are followed by a dash, so the first
  group is the whole run of digits after \<^verbatim>\<open>repo-\<close> and the second group is what follows
  the dash.
\<close>

definition parseRoomId_regex :: regex where
  "parseRoomId_regex =
     Seq (Str ''repo-'') (Seq (Plus (Atom Digit)) (Seq (Atom (Lit CHR ''-'')) (Plus (Atom Dot))))"

definition parseRoomId :: "string \<Rightarrow> ParsedRoomId option" where
  "parseRoomId roomId =
     (if \<not> test_anchored parseRoomId_regex roomId then None
      else
        (let match1 = takeWhile is_digit (drop 5 roomId);
             match2 = drop (6 + length match1) roomId
         in if match2 = [] then None
            else Some \<lparr>repositoryId = parseInt10 match1, filePath = match2\<rparr>))"

text \<open>
  The request of \<^verbatim>\<open>fetch\<close>: method, the base URL and the repository of
  \<^verbatim>\<open>{apiBaseUrl}/repositories/{repositoryId}/files/content\<close>, and the fields of the JSON body.
  \<^verbatim>\<open>fetch\<close> is a parameter: \<open>Inl\<close> is a network failure, \<open>Inr\<close> the response, with its
  \<^verbatim>\<open>ok\<close> flag, its status, and whether its body parses as JSON.
\<close>

record SaveRequest =
  req_method :: string
  req_apiBaseUrl :: string
  req_repositoryId :: js_integer
  req_contentType :: string
  req_filePath :: string
  req_content :: string
  req_source :: string

record SaveResponse =
  resp_ok :: bool
  resp_status :: nat
  resp_statusText :: string
  resp_json :: bool

definition triggerSaveAPI ::
  "string \<Rightarrow> (SaveRequest \<Rightarrow> string + SaveResponse) \<Rightarrow> string \<Rightarrow> string
     \<Rightarrow> (js_error + unit) \<times> SaveRequest list" where
  "triggerSaveAPI apiBaseUrl fetch roomId content =
     (case parseRoomId roomId of
        None \<Rightarrow> (Inr (), [])
      | Some parsedRoom \<Rightarrow>
          (let request = \<lparr>req_method = ''PUT'', req_apiBaseUrl = apiBaseUrl,
                          req_repositoryId = repositoryId parsedRoom,
                          req_contentType = ''application/json'',
                          req_filePath = filePath parsedRoom, req_content = content,
                          req_source = ''yjs-collaboration''\<rparr>
           in case fetch request of
                Inl message \<Rightarrow> (Inl (Error message), [request])
              | Inr response \<Rightarrow>
                  if \<not> resp_ok response
                  then (Inl (ApiError (resp_status response) (resp_statusText response)), [request])
                  else if \<not> resp_json response then (Inl (Error ''SyntaxError''), [request])
                  else (Inr (), [request])))"

section \<open>Connection handler (server.ts)\<close>

record IncomingMessage =
  url :: "string option"
  remoteAddress :: "string option"

text \<open>
  \<^verbatim>\<open>handleClientConnection\<close>. \<open>maxClientsPerRoom\<close> is the configured cap (50 by default),
  \<open>clientId\<close> the fresh identifier \<^verbatim>\<open>generateClientId()\<close> returned and \<open>now\<close> the clock.
\<close>

definition handleClientConnection ::
  "nat \<Rightarrow> nat \<Rightarrow> string \<Rightarrow> ws_ref \<Rightarrow> IncomingMessage \<Rightarrow> 'doc server \<Rightarrow> 'doc server \<times> event list"
where
  "handleClientConnection maxClientsPerRoom now clientId ws request s =
     (let clientIP = (case remoteAddress request of
                        None \<Rightarrow> ''unknown''
                      | Some a \<Rightarrow> if a = [] then ''unknown'' else a);
          url0 = (case url request of None \<Rightarrow> [] | Some u \<Rightarrow> u);
          roomId = (if drop 1 url0 = [] then ''default'' else drop 1 url0)
      in if roomId \<noteq> ''default'' \<and> \<not> isAllowedRoom roomId
         then ws_close ws 1008 ''Unauthorized room access'' s
         else if roomId = ''default''
         then ws_close ws 1000 ''Test connection'' s
         else
           (case trackConnection clientIP roomId (connectionTracker s) of
              (False, ct) \<Rightarrow>
                (let (s1, ev) = ws_close ws 1008 ''Too many connections per IP per room''
                                  (s\<lparr>connectionTracker := ct\<rparr>)
                 in (s1, TrackConnection clientIP roomId False # ev))
            | (True, ct) \<Rightarrow>
                (let s1 = s\<lparr>connectionTracker := ct\<rparr>;
                     currentClientCount = getActiveClientCount s1 roomId
                 in if currentClientCount \<ge> maxClientsPerRoom
                    then
                      (let s2 = s1\<lparr>connectionTracker :=
                                     untrackConnection clientIP roomId (connectionTracker s1)\<rparr>;
                           (s3, ev) = ws_close ws 1008 ''Room capacity exceeded'' s2
                       in (s3, [TrackConnection clientIP roomId True,
                                UntrackConnection clientIP roomId] @ ev))
                    else
                      (let s2 = s1\<lparr>sockets := (sockets s1)
                                     (ws := (sockets s1 ws)
                                        \<lparr>ws_roomId := Some roomId, ws_clientId := Some clientId,
                                         ws_isAlive := Some True, ws_connectedAt := Some now,
                                         ws_lastActivity := Some now,
                                         ws_socket := (case ws_socket (sockets s1 ws) of
                                                         None \<Rightarrow> Some (Some clientIP)
                                                       | Some x \<Rightarrow> Some x)\<rparr>)\<rparr>;
                           (clientCount, s3, ev) = addClient now roomId ws s2
                       in (s3, TrackConnection clientIP roomId True # ev)))))"

text \<open>
  \<^verbatim>\<open>handleClientDisconnection\<close>, the handler of the \<^verbatim>\<open>close\<close> event of a socket (and, with
  code 1011, of its \<^verbatim>\<open>error\<close> event).
\<close>

definition handleClientDisconnection ::
  "nat \<Rightarrow> ws_ref \<Rightarrow> 'doc server \<Rightarrow> 'doc server \<times> event list" where
  "handleClientDisconnection now ws s =
     (if \<not> truthy (ws_roomId (sockets s ws)) \<or> \<not> truthy (ws_clientId (sockets s ws)) then (s, [])
      else
        (case ws_roomId (sockets s ws) of
           None \<Rightarrow> (s, [])
         | Some roomId \<Rightarrow>
             (let (clientCount, s1, ev) = removeClient now roomId ws s;
                  clientIP = (case ws_socket (sockets s1 ws) of
                                Some (Some a) \<Rightarrow> if a = [] then ''unknown'' else a
                              | _ \<Rightarrow> ''unknown'')
              in (s1\<lparr>connectionTracker :=
                        untrackConnection clientIP roomId (connectionTracker s1)\<rparr>,
                  ev @ [UntrackConnection clientIP roomId]))))"

text \<open>The handler of the \<^verbatim>\<open>pong\<close> event of a socket.\<close>

definition handlePong :: "nat \<Rightarrow> ws_ref \<Rightarrow> 'doc server \<Rightarrow> 'doc server" where
  "handlePong now ws s =
     s\<lparr>sockets := (sockets s)
          (ws := (sockets s ws)\<lparr>ws_isAlive := Some True, ws_lastActivity := Some now\<rparr>)\<rparr>"

text \<open>
  \<^verbatim>\<open>ws.terminate()\<close> of the transport: a socket that is not closed yet starts closing.
  The callback of the heartbeat interval of \<^verbatim>\<open>setupHeartbeat\<close> runs over \<^verbatim>\<open>wss.clients\<close>,
  the sockets the transport holds: a socket that did not answer the last ping, is not
  open or has no ids is terminated; every other socket is marked not alive and pinged.
\<close>

definition ws_terminate :: "ws_ref \<Rightarrow> 'doc server \<Rightarrow> 'doc server" where
  "ws_terminate ws s =
     s\<lparr>sockets := (sockets s)
          (ws := (sockets s ws)\<lparr>ws_readyState :=
                    (if ws_readyState (sockets s ws) = 3 then 3 else 2)\<rparr>)\<rparr>"

fun heartbeat :: "ws_ref list \<Rightarrow> 'doc server \<Rightarrow> 'doc server \<times> event list" where
  "heartbeat [] s = (s, [])"
| "heartbeat (ws # rest) s =
     (if ws_isAlive (sockets s ws) \<noteq> Some True \<or> ws_readyState (sockets s ws) \<noteq> 1
         \<or> \<not> truthy (ws_roomId (sockets s ws)) \<or> \<not> truthy (ws_clientId (sockets s ws))
      then (let (s1, ev) = heartbeat rest (ws_terminate ws s) in (s1, WsTerminate ws # ev))
      else (let (s1, ev) = heartbeat rest
                             (s\<lparr>sockets := (sockets s)
                                  (ws := (sockets s ws)\<lparr>ws_isAlive := Some False\<rparr>)\<rparr>)
            in (s1, WsPing ws # ev)))"

text \<open>
  The state the process starts in, with a socket the transport has just accepted behind
  every reference: open, and none of the fields of the handler assigned.
\<close>

definition acceptedSocket :: ExtendedWebSocket where
  "acceptedSocket =
     \<lparr>ws_readyState = 1, ws_roomId = None, ws_clientId = None, ws_isAlive = None,
      ws_connectedAt = None, ws_lastActivity = None, ws_socket = None\<rparr>"

definition newServer :: "nat \<Rightarrow> 'doc server" where
  "newServer ms =
     \<lparr>rooms = [], gracePeriods = [],
      yjsManager = \<lparr>documents = [], documentStates = []\<rparr>,
      gracePeriodMs = ms, connectionTracker = [],
      sockets = (\<lambda>ws. acceptedSocket), timers = [], nextTimer = 0\<rparr>"

section \<open>The shapes of the specification\<close>

text \<open>
  The classifier as the specification words it: \<^verbatim>\<open>repo-<int>-<rest>\<close> with a non-empty
  rest is a code-editor room, \<^verbatim>\<open>filetree-<int>\<close> a file-tree room, \<^verbatim>\<open>savepoint-<int>\<close> a
  save-point room, \<^verbatim>\<open>default\<close> the probe, anything else unsupported.
\<close>

datatype room_kind = CodeEditor | FileTree | SavePoint | Probe | Unsupported

definition spec_repo_shape :: "string \<Rightarrow> bool" where
  "spec_repo_shape roomId =
     matches (Seq (Str ''repo-'') (Seq (Plus (Atom Digit))
                (Seq (Atom (Lit CHR ''-'')) (Plus (Atom AnyChar))))) roomId"

definition spec_classify :: "string \<Rightarrow> room_kind" where
  "spec_classify roomId =
     (if spec_repo_shape roomId then CodeEditor
      else if matches (Seq (Str ''filetree-'') (Plus (Atom Digit))) roomId then FileTree
      else if matches (Seq (Str ''savepoint-'') (Plus (Atom Digit))) roomId then SavePoint
      else if roomId = ''default'' then Probe
      else Unsupported)"

section \<open>States to run the server on\<close>

text \<open>A server with a cap of one client per room, after its first client joined.\<close>

definition oneClient :: "(bytes list) server" where
  "oneClient = fst (handleClientConnection 1 1000 ''client_1000_abc'' 0
                 \<lparr>url = Some ''/repo-1-a.ts'', remoteAddress = Some ''10.0.0.1''\<rparr>
                 (newServer 120000))"

text \<open>
  A code-editor room with four members; the socket of the last one is closed.
\<close>

definition fourClients :: "(bytes list) server" where
  "fourClients =
     (newServer 120000)
       \<lparr>rooms := [(''repo-7-foo.ts'',
                    \<lparr>room_id = ''repo-7-foo.ts'', room_clients = [0, 1, 2, 3],
                     room_createdAt = 1000, room_lastActivity = 1000\<rparr>)],
        sockets := (\<lambda>ws. if ws = 3 then acceptedSocket\<lparr>ws_readyState := 3\<rparr> else acceptedSocket)\<rparr>"

text \<open>
  A code-editor room whose only client joined at 1000 and left at 2000: the room is empty
  and its grace timer is pending.
\<close>

definition armed :: "(bytes list) server" where
  "armed = fst (snd (removeClient 2000 ''repo-7-foo.ts'' 0
             (fst (handleClientConnection 50 1000 ''client_1000_abc'' 0
                     \<lparr>url = Some ''/repo-7-foo.ts'', remoteAddress = Some ''10.0.0.1''\<rparr>
                     (newServer 120000)))))"

text \<open>
  Two clients admitted to the room \<^verbatim>\<open>repo-7-/src/main.ts\<close>, whose file path starts with a
  slash.
\<close>

definition slashRoom :: "(bytes list) server" where
  "slashRoom =
     fst (handleClientConnection 50 1001 ''client_1001_def'' 1
            \<lparr>url = Some ''/repo-7-/src/main.ts'', remoteAddress = Some ''10.0.0.2''\<rparr>
            (fst (handleClientConnection 50 1000 ''client_1000_abc'' 0
                    \<lparr>url = Some ''/repo-7-/src/main.ts'', remoteAddress = Some ''10.0.0.1''\<rparr>
                    (newServer 120000))))"

text \<open>
  A run of the server with a grace period of 120000 ms. Two clients join the room
  \<^verbatim>\<open>repo-7-foo.ts\<close> at 1000 and 1001 (\<open>twoJoined\<close>). The heartbeat pings both at 30000
  (\<open>pinged\<close>), and before either answers both connections close, at 30001 and 30002
  (\<open>bothLeft\<close>). A third client joins at 50000 (\<open>rejoined\<close>), and the heartbeat pings
  it at 150000 (\<open>pingedAgain\<close>).
\<close>

text \<open>The socket of a client of that room, as the handler leaves it (with its liveness flag).\<close>

definition joinedSocket :: "string \<Rightarrow> nat \<Rightarrow> string \<Rightarrow> bool \<Rightarrow> ExtendedWebSocket" where
  "joinedSocket clientId now clientIP alive =
     \<lparr>ws_readyState = 1, ws_roomId = Some ''repo-7-foo.ts'', ws_clientId = Some clientId,
      ws_isAlive = Some alive, ws_connectedAt = Some now, ws_lastActivity = Some now,
      ws_socket = Some (Some clientIP)\<rparr>"

definition twoJoined :: "(bytes list) server" where
  "twoJoined =
     fst (handleClientConnection 50 1001 ''client_1001_def'' 11
            \<lparr>url = Some ''/repo-7-foo.ts'', remoteAddress = Some ''10.0.0.2''\<rparr>
            (fst (handleClientConnection 50 1000 ''client_1000_abc'' 10
                    \<lparr>url = Some ''/repo-7-foo.ts'', remoteAddress = Some ''10.0.0.1''\<rparr>
                    (newServer 120000))))"

definition pinged :: "(bytes list) server" where
  "pinged = fst (heartbeat [10, 11] twoJoined)"

definition bothLeft :: "(bytes list) server" where
  "bothLeft =
     fst (handleClientDisconnection 30002 11 (fst (handleClientDisconnection 30001 10 pinged)))"

definition rejoined :: "(bytes list) server" where
  "rejoined =
     fst (handleClientConnection 50 50000 ''client_50000_ghi'' 12
            \<lparr>url = Some ''/repo-7-foo.ts'', remoteAddress = Some ''10.0.0.3''\<rparr> bothLeft)"

definition pingedAgain :: "(bytes list) server" where
  "pingedAgain = fst (heartbeat [12] rejoined)"

section \<open>Auxiliary notions of the proofs\<close>

text \<open>The words of a derivative, which may be the failure element.\<close>

definition olang :: "regex option \<Rightarrow> string set" where
  "olang x = (case x of None \<Rightarrow> {} | Some r \<Rightarrow> lang r)"

text \<open>
  What every reachable quota table satisfies: no IP keeps an empty inner map, and every
  stored count lies between one and the cap.
\<close>

definition tracker_inv :: "tracker \<Rightarrow> bool" where
  "tracker_inv ct \<longleftrightarrow>
     (\<forall>ip m. map_of ct ip = Some m \<longrightarrow>
        m \<noteq> [] \<and> (\<forall>r c. map_of m r = Some c \<longrightarrow> 1 \<le> c \<and> c \<le> MAX_CONNECTIONS_PER_IP_PER_ROOM))"

section \<open>The matcher decides membership\<close>

lemma star_cons: "c # w \<in> star A \<longleftrightarrow> (\<exists>u v. c # u \<in> A \<and> v \<in> star A \<and> w = u @ v)"
proof
  assume "c # w \<in> star A"
  then show "\<exists>u v. c # u \<in> A \<and> v \<in> star A \<and> w = u @ v"
  proof (induction "c # w" rule: star.induct)
    case (star_app u v)
    then show ?case by (cases u) auto
  qed
next
  assume "\<exists>u v. c # u \<in> A \<and> v \<in> star A \<and> w = u @ v"
  then obtain u v where "c # u \<in> A" "v \<in> star A" "w = u @ v" by blast
  then show "c # w \<in> star A" using star.star_app[of "c # u" A v] by simp
qed

lemma nullable_lang: "nullable r \<longleftrightarrow> [] \<in> lang r"
  by (induction r) (auto intro: star.star_nil)

lemma olang_dseq: "olang (dseq x s) = {u @ v | u v. u \<in> olang x \<and> v \<in> lang s}"
  by (cases x) (auto simp: olang_def)

lemma olang_dalt: "olang (dalt x y) = olang x \<union> olang y"
  by (cases x; cases y) (auto simp: olang_def)

lemma deriv_lang: "olang (deriv c r) = {w. c # w \<in> lang r}"
proof (induction r)
  case Eps show ?case by (simp add: olang_def)
next
  case (Atom k) show ?case by (auto simp: olang_def)
next
  case (Seq r s)
  have split: "\<And>w. (c # w \<in> lang (Seq r s)) \<longleftrightarrow>
      (\<exists>u v. c # u \<in> lang r \<and> v \<in> lang s \<and> w = u @ v) \<or> ([] \<in> lang r \<and> c # w \<in> lang s)"
    by (auto simp: Cons_eq_append_conv) 
  show ?case
  proof (cases "nullable r")
    case True
    then show ?thesis
      unfolding split using Seq by (auto simp: olang_dseq olang_dalt nullable_lang)
  next
    case False
    then show ?thesis
      unfolding split using Seq by (auto simp: olang_dseq nullable_lang)
  qed
next
  case (Alt r s) then show ?case by (auto simp: olang_dalt)
next
  case (Star r)
  then show ?case by (auto simp: olang_dseq star_cons)
qed


lemma matches_lang: "matches r w \<longleftrightarrow> w \<in> lang r"
proof (induction w arbitrary: r)
  case Nil show ?case by (simp add: nullable_lang)
next
  case (Cons c w)
  show ?case
  proof (cases "deriv c r")
    case None
    then show ?thesis using deriv_lang[of c r] by (auto simp: olang_def)
  next
    case (Some r')
    then show ?thesis using deriv_lang[of c r] Cons[of r'] by (auto simp: olang_def)
  qed
qed

section \<open>The quota table\<close>

lemma tracker_inv_empty: "tracker_inv []"
  by (simp add: tracker_inv_def)

lemma tracker_invD1: "tracker_inv ct \<Longrightarrow> map_of ct ip = Some m \<Longrightarrow> m \<noteq> []"
  by (simp add: tracker_inv_def)

lemma tracker_invD2:
  "tracker_inv ct \<Longrightarrow> map_of ct ip = Some m \<Longrightarrow> map_of m r = Some c \<Longrightarrow> 1 \<le> c \<and> c \<le> 10"
  unfolding tracker_inv_def MAX_CONNECTIONS_PER_IP_PER_ROOM_def by blast

lemma tracker_invI:
  assumes "\<And>ip m. map_of ct ip = Some m \<Longrightarrow> m \<noteq> []"
    and "\<And>ip m r c. map_of ct ip = Some m \<Longrightarrow> map_of m r = Some c \<Longrightarrow> 1 \<le> c \<and> c \<le> 10"
  shows "tracker_inv ct"
  unfolding tracker_inv_def MAX_CONNECTIONS_PER_IP_PER_ROOM_def using assms by blast

lemma quota_range: "tracker_inv ct \<Longrightarrow> 0 \<le> quota ct ip r \<and> quota ct ip r \<le> 10"
  unfolding quota_def by (auto split: option.splits dest: tracker_invD2)

lemma track_snd:
  "snd (trackConnection ip r ct) =
     (if quota ct ip r \<ge> 10 then ct
      else AList.update ip
             (AList.update r (quota ct ip r + 1) (case map_of ct ip of None \<Rightarrow> [] | Some m \<Rightarrow> m)) ct)"
  unfolding quota_def trackConnection_def Let_def MAX_CONNECTIONS_PER_IP_PER_ROOM_def
  by (auto simp: update_conv' split: option.splits)

lemma tracker_inv_track:
  assumes "tracker_inv ct"
  shows "tracker_inv (snd (trackConnection ip r ct))"
proof (cases "quota ct ip r \<ge> 10")
  case True
  then show ?thesis using assms by (simp add: track_snd)
next
  case False
  define m0 where "m0 = (case map_of ct ip of None \<Rightarrow> [] | Some m \<Rightarrow> m)"
  define q where "q = quota ct ip r"
  have q: "0 \<le> q" "q < 10" using False quota_range[OF assms, of ip r] by (simp_all add: q_def)
  have snd: "snd (trackConnection ip r ct) = AList.update ip (AList.update r (q + 1) m0) ct"
    using False by (simp add: track_snd m0_def q_def)
  have m0: "\<And>r' c. map_of m0 r' = Some c \<Longrightarrow> 1 \<le> c \<and> c \<le> 10"
    unfolding m0_def using assms by (auto split: option.splits dest: tracker_invD2)
  show ?thesis
    unfolding snd
  proof (rule tracker_invI)
    fix ip' m assume "map_of (AList.update ip (AList.update r (q + 1) m0) ct) ip' = Some m"
    then show "m \<noteq> []"
      using assms by (auto simp: update_conv' split: if_splits dest: tracker_invD1)
  next
    fix ip' m r' c
    assume a: "map_of (AList.update ip (AList.update r (q + 1) m0) ct) ip' = Some m"
      and b: "map_of m r' = Some c"
    show "1 \<le> c \<and> c \<le> 10"
    proof (cases "ip' = ip")
      case True
      with a have "m = AList.update r (q + 1) m0" by (simp add: update_conv')
      with b q m0 show ?thesis by (auto simp: update_conv' split: if_splits)
    next
      case False
      with a have "map_of ct ip' = Some m" by (simp add: update_conv')
      with b assms show ?thesis by (rule_tac tracker_invD2)
    qed
  qed
qed

lemma delete_eq_Nil_map_of: "AList.delete r m \<noteq> [] \<Longrightarrow> \<exists>r'. r' \<noteq> r \<and> map_of m r' \<noteq> None"
proof (induction m)
  case Nil then show ?case by simp
next
  case (Cons p m)
  then show ?case by (cases p) (auto split: if_splits)
qed

lemma tracker_inv_untrack:
  assumes "tracker_inv ct"
  shows "tracker_inv (untrackConnection ip r ct)"
proof (rule tracker_invI)
  fix ip' m assume a: "map_of (untrackConnection ip r ct) ip' = Some m"
  show "m \<noteq> []"
  proof (cases "ip' = ip")
    case True
    with a show ?thesis
      unfolding untrackConnection_def Let_def
      by (auto simp: update_conv' delete_conv' split: option.splits if_splits
               dest: tracker_invD1[OF assms])
  next
    case False
    with a have "map_of ct ip' = Some m"
      unfolding untrackConnection_def Let_def
      by (auto simp: update_conv' delete_conv' split: option.splits if_splits)
    then show ?thesis by (rule tracker_invD1[OF assms])
  qed
next
  fix ip' m r' c
  assume a: "map_of (untrackConnection ip r ct) ip' = Some m" and b: "map_of m r' = Some c"
  show "1 \<le> c \<and> c \<le> 10"
  proof (cases "ip' = ip")
    case False
    with a have "map_of ct ip' = Some m"
      unfolding untrackConnection_def Let_def
      by (auto simp: update_conv' delete_conv' split: option.splits if_splits)
    then show ?thesis using b by (rule tracker_invD2[OF assms])
  next
    case True
    from a True obtain m0 where m0: "map_of ct ip = Some m0"
      unfolding untrackConnection_def by (auto split: option.splits)
    note d = tracker_invD2[OF assms m0]
    from a True m0 have
      "m = AList.delete r m0 \<or> (\<exists>c0. map_of m0 r = Some c0 \<and> 1 < c0 \<and> m = AList.update r (c0 - 1) m0)"
      unfolding untrackConnection_def Let_def
      by (auto simp: update_conv' delete_conv' split: option.splits if_splits)
    then show ?thesis
    proof
      assume "m = AList.delete r m0"
      with b have "map_of m0 r' = Some c" by (auto simp: delete_conv' split: if_splits)
      then show ?thesis by (rule d)
    next
      assume "\<exists>c0. map_of m0 r = Some c0 \<and> 1 < c0 \<and> m = AList.update r (c0 - 1) m0"
      then obtain c0 where c0: "map_of m0 r = Some c0" "1 < c0" "m = AList.update r (c0 - 1) m0"
        by blast
      show ?thesis
      proof (cases "r' = r")
        case True
        with b c0 have "c = c0 - 1" by (simp add: update_conv')
        with c0 d[OF c0(1)] show ?thesis by simp
      next
        case False
        with b c0 have "map_of m0 r' = Some c" by (simp add: update_conv')
        then show ?thesis by (rule d)
      qed
    qed
  qed
qed

lemma reachable_inv: "reachable ct \<Longrightarrow> tracker_inv ct"
  by (induction rule: reachable.induct)
     (simp_all add: tracker_inv_empty tracker_inv_track tracker_inv_untrack)

lemma quota_track:
  "quota (snd (trackConnection ip r ct)) ip' r' =
     (if (ip', r') = (ip, r) \<and> quota ct ip r < MAX_CONNECTIONS_PER_IP_PER_ROOM
      then quota ct ip r + 1 else quota ct ip' r')"
  unfolding quota_def trackConnection_def Let_def
  by (auto simp: update_conv' split: option.splits)

lemma track_refused:
  "quota ct ip r \<ge> MAX_CONNECTIONS_PER_IP_PER_ROOM \<Longrightarrow> trackConnection ip r ct = (False, ct)"
  unfolding quota_def trackConnection_def Let_def MAX_CONNECTIONS_PER_IP_PER_ROOM_def
  by (auto split: option.splits)

lemma track_granted:
  "quota ct ip r < MAX_CONNECTIONS_PER_IP_PER_ROOM \<Longrightarrow> fst (trackConnection ip r ct)"
  unfolding quota_def trackConnection_def Let_def MAX_CONNECTIONS_PER_IP_PER_ROOM_def
  by (auto simp: update_conv' split: option.splits)

lemma stored_ge: "tracker_inv ct \<Longrightarrow> stored ct ip r = Some c \<Longrightarrow> 1 \<le> c"
  unfolding stored_def by (auto split: option.splits dest: tracker_invD2)

lemma stored_untrack:
  "stored (untrackConnection ip r ct) ip' r' =
     (if (ip', r') = (ip, r)
      then (case stored ct ip r of None \<Rightarrow> None | Some c \<Rightarrow> if c \<le> 1 then None else Some (c - 1))
      else stored ct ip' r')"
proof -
  have nil: "\<And>m. AList.delete r m = [] \<Longrightarrow> r' \<noteq> r \<Longrightarrow> map_of m r' = None"
    by (metis delete_conv' fun_upd_apply map_of.simps(1))
  show ?thesis
    unfolding stored_def untrackConnection_def Let_def
    by (auto simp: update_conv' delete_conv' nil split: option.splits)
qed

lemma untrack_noop:
  assumes "tracker_inv ct" "quota ct ip r = 0"
  shows "untrackConnection ip r ct = ct"
proof (cases "map_of ct ip")
  case None
  then show ?thesis by (simp add: untrackConnection_def)
next
  case (Some m)
  have ne: "m \<noteq> []" using assms(1) Some by (rule tracker_invD1)
  have none: "map_of m r = None"
  proof (cases "map_of m r")
    case (Some c)
    with tracker_invD2[OF assms(1) \<open>map_of ct ip = Some m\<close> Some] assms(2) \<open>map_of ct ip = Some m\<close>
    show ?thesis by (simp add: quota_def)
  qed simp
  from none have "r \<notin> fst ` set m" by (simp add: map_of_eq_None_iff)
  then have "AList.delete r m = m" by simp
  with Some ne none show ?thesis
    by (simp add: untrackConnection_def update_triv)
qed

lemma untrack_track:
  assumes "tracker_inv ct" "quota ct ip r < MAX_CONNECTIONS_PER_IP_PER_ROOM"
  shows "untrackConnection ip r (snd (trackConnection ip r ct)) = ct"
proof (cases "map_of ct ip")
  case None
  then have "ip \<notin> fst ` set ct" by (simp add: map_of_eq_None_iff)
  then have "AList.delete ip ct = ct" by simp
  with None show ?thesis
    unfolding trackConnection_def untrackConnection_def Let_def MAX_CONNECTIONS_PER_IP_PER_ROOM_def
    by (simp add: update_conv' delete_update_same)
next
  case (Some m)
  have ne: "m \<noteq> []" using assms(1) Some by (rule tracker_invD1)
  have ge: "\<And>c. map_of m r = Some c \<Longrightarrow> 1 \<le> c"
    using tracker_invD2[OF assms(1) Some] by blast
  show ?thesis
  proof (cases "map_of m r")
    case None
    then have "r \<notin> fst ` set m" by (simp add: map_of_eq_None_iff)
    then have "AList.delete r m = m" by simp
    with Some None ne show ?thesis
      unfolding trackConnection_def untrackConnection_def Let_def MAX_CONNECTIONS_PER_IP_PER_ROOM_def
      by (simp add: update_conv' delete_update_same update_triv)
  next
    case c: (Some c)
    with ge have "1 \<le> c" by simp
    moreover from assms(2) Some c have "c < 10"
      by (simp add: quota_def MAX_CONNECTIONS_PER_IP_PER_ROOM_def)
    ultimately show ?thesis using Some c
      unfolding trackConnection_def untrackConnection_def Let_def MAX_CONNECTIONS_PER_IP_PER_ROOM_def
      by (simp add: update_conv' update_triv)
  qed
qed

lemma reachable_track_times: "reachable ct \<Longrightarrow> reachable (track_times n ip r ct)"
  by (induction n arbitrary: ct) (simp_all add: reachable.reach_track)

lemma untrack_last:
  assumes q: "quota ct clientIP roomId \<le> 1"
      and others: "\<forall>r'. r' \<noteq> roomId \<longrightarrow> stored ct clientIP r' = None"
  shows "map_of (untrackConnection clientIP roomId ct) clientIP = None"
proof (cases "map_of ct clientIP")
  case None
  then show ?thesis by (simp add: untrackConnection_def)
next
  case (Some m)
  have "AList.delete roomId m = []"
  proof (rule ccontr)
    assume "AList.delete roomId m \<noteq> []"
    then obtain r' where r': "r' \<noteq> roomId" "map_of m r' \<noteq> None"
      using delete_eq_Nil_map_of[of roomId m] by blast
    from others r'(1) have "stored ct clientIP r' = None" by blast
    with Some r'(2) show False by (simp add: stored_def)
  qed
  moreover from q Some have "(case map_of m roomId of Some n \<Rightarrow> n | None \<Rightarrow> 0) \<le> 1"
    by (simp add: quota_def)
  ultimately show ?thesis using Some
    unfolding untrackConnection_def Let_def by (simp add: delete_conv')
qed

text \<open>
  Claim C4. In every table the server can reach, the count of every (IP, room) pair is at
  most \<^const>\<open>MAX_CONNECTIONS_PER_IP_PER_ROOM\<close>, which is 10. When the count of the pair
  equals the cap, \<^const>\<open>trackConnection\<close> returns false and leaves the table as it was;
  otherwise it returns true, the count of the pair grows by one and the count of every
  other pair stays.
\<close>

theorem trackConnection_cap:
  assumes "reachable ct"
  shows "quota ct clientIP roomId \<le> 10
       \<and> (quota ct clientIP roomId = 10 \<longrightarrow>
            trackConnection clientIP roomId ct = (False, ct))
       \<and> (quota ct clientIP roomId \<noteq> 10 \<longrightarrow>
            fst (trackConnection clientIP roomId ct)
          \<and> quota (snd (trackConnection clientIP roomId ct)) clientIP roomId
              = quota ct clientIP roomId + 1
          \<and> (\<forall>ip' r'. (ip', r') \<noteq> (clientIP, roomId) \<longrightarrow>
                quota (snd (trackConnection clientIP roomId ct)) ip' r' = quota ct ip' r'))"
proof -
  have inv: "tracker_inv ct" using assms by (rule reachable_inv)
  have le: "quota ct clientIP roomId \<le> 10"
    using quota_range[OF inv, of clientIP roomId] by simp
  have full: "quota ct clientIP roomId = 10 \<Longrightarrow>
      trackConnection clientIP roomId ct = (False, ct)"
    by (simp add: track_refused MAX_CONNECTIONS_PER_IP_PER_ROOM_def)
  have room: "quota ct clientIP roomId \<noteq> 10 \<Longrightarrow>
      quota ct clientIP roomId < MAX_CONNECTIONS_PER_IP_PER_ROOM"
    using le by (simp add: MAX_CONNECTIONS_PER_IP_PER_ROOM_def)
  show ?thesis
    using le full room
    by (auto simp: track_granted quota_track)
qed

theorem trackConnection_cap_witness:
  "quota (track_times 10 ''10.0.0.1'' ''repo-1-a.ts'' []) ''10.0.0.1'' ''repo-1-a.ts'' = 10
   \<and> trackConnection ''10.0.0.1'' ''repo-1-a.ts'' (track_times 10 ''10.0.0.1'' ''repo-1-a.ts'' [])
       = (False, [(''10.0.0.1'', [(''repo-1-a.ts'', 10)])])
   \<and> fst (trackConnection ''10.0.0.1'' ''repo-1-b.ts''
            (track_times 10 ''10.0.0.1'' ''repo-1-a.ts'' []))
   \<and> quota (snd (trackConnection ''10.0.0.1'' ''repo-1-b.ts''
                   (track_times 10 ''10.0.0.1'' ''repo-1-a.ts'' []))) ''10.0.0.1'' ''repo-1-b.ts'' = 1"
proof -
  let ?ct = "track_times 10 ''10.0.0.1'' ''repo-1-a.ts'' []"
  have r: "reachable ?ct" by (rule reachable_track_times[OF reach_empty])
  have v: "?ct = [(''10.0.0.1'', [(''repo-1-a.ts'', 10)])]" by code_simp
  have qa: "quota ?ct ''10.0.0.1'' ''repo-1-a.ts'' = 10" unfolding v by (simp add: quota_def)
  have qb: "quota ?ct ''10.0.0.1'' ''repo-1-b.ts'' = 0" unfolding v by (simp add: quota_def)
  have a: "trackConnection ''10.0.0.1'' ''repo-1-a.ts'' ?ct = (False, ?ct)"
    using trackConnection_cap[OF r, of "''10.0.0.1''" "''repo-1-a.ts''"] qa by blast
  have b: "fst (trackConnection ''10.0.0.1'' ''repo-1-b.ts'' ?ct)
        \<and> quota (snd (trackConnection ''10.0.0.1'' ''repo-1-b.ts'' ?ct)) ''10.0.0.1'' ''repo-1-b.ts''
            = quota ?ct ''10.0.0.1'' ''repo-1-b.ts'' + 1"
    using trackConnection_cap[OF r, of "''10.0.0.1''" "''repo-1-b.ts''"] qb by simp
  have c: "quota (snd (trackConnection ''10.0.0.1'' ''repo-1-b.ts'' ?ct)) ''10.0.0.1'' ''repo-1-b.ts'' = 1"
    using b qb by simp
  have a': "trackConnection ''10.0.0.1'' ''repo-1-a.ts'' ?ct = (False, [(''10.0.0.1'', [(''repo-1-a.ts'', 10)])])"
    using a v by simp
  from qa a' b c show ?thesis by blast
qed

text \<open>
  Claim C9. In every table the server can reach, \<^const>\<open>untrackConnection\<close> for a pair
  with no tracked connection leaves the table as it was, every stored count is at least 1
  and no IP keeps an empty inner map. A stored count of 1 or less is not decremented: the
  room's entry is deleted, and when no other room is stored for the IP the IP's entry is
  deleted too. A larger count is decremented by one.
\<close>

theorem untrackConnection_counts_positive:
  assumes "reachable ct"
  shows "(quota ct clientIP roomId = 0 \<longrightarrow> untrackConnection clientIP roomId ct = ct)
       \<and> (\<forall>ip' r' c. stored ct ip' r' = Some c \<longrightarrow> 1 \<le> c)
       \<and> (\<forall>ip' m. map_of ct ip' = Some m \<longrightarrow> m \<noteq> [])
       \<and> stored (untrackConnection clientIP roomId ct) clientIP roomId
           = (case stored ct clientIP roomId of
                None \<Rightarrow> None
              | Some c \<Rightarrow> if c \<le> 1 then None else Some (c - 1))
       \<and> (quota ct clientIP roomId \<le> 1 \<and> (\<forall>r'. r' \<noteq> roomId \<longrightarrow> stored ct clientIP r' = None) \<longrightarrow>
            map_of (untrackConnection clientIP roomId ct) clientIP = None)
       \<and> reachable (untrackConnection clientIP roomId ct)"
proof -
  have inv: "tracker_inv ct" using assms by (rule reachable_inv)
  have a: "quota ct clientIP roomId = 0 \<Longrightarrow> untrackConnection clientIP roomId ct = ct"
    using inv by (rule untrack_noop)
  have b: "\<And>ip' r' c. stored ct ip' r' = Some c \<Longrightarrow> 1 \<le> c"
    using inv by (rule stored_ge)
  have c: "\<And>ip' m. map_of ct ip' = Some m \<Longrightarrow> m \<noteq> []"
    using inv by (rule tracker_invD1)
  have d: "stored (untrackConnection clientIP roomId ct) clientIP roomId
           = (case stored ct clientIP roomId of
                None \<Rightarrow> None
              | Some c \<Rightarrow> if c \<le> 1 then None else Some (c - 1))"
    by (simp add: stored_untrack)
  have f: "reachable (untrackConnection clientIP roomId ct)"
    using assms by (rule reach_untrack)
  have A: "quota ct clientIP roomId = 0 \<longrightarrow> untrackConnection clientIP roomId ct = ct"
    using a by (rule impI)
  have B: "\<forall>ip' r' c. stored ct ip' r' = Some c \<longrightarrow> 1 \<le> c"
    using b by (intro allI impI)
  have C: "\<forall>ip' m. map_of ct ip' = Some m \<longrightarrow> m \<noteq> []"
    using c by (intro allI impI)
  have E: "quota ct clientIP roomId \<le> 1 \<and> (\<forall>r'. r' \<noteq> roomId \<longrightarrow> stored ct clientIP r' = None) \<longrightarrow>
            map_of (untrackConnection clientIP roomId ct) clientIP = None"
    using untrack_last[of ct clientIP roomId] by blast
  show ?thesis
    by (intro conjI) (fact A, fact B, fact C, fact d, fact E, fact f)
qed

theorem untrackConnection_counts_positive_witness:
  "untrackConnection ''10.0.0.1'' ''repo-1-b.ts'' (track_times 2 ''10.0.0.1'' ''repo-1-a.ts'' [])
     = [(''10.0.0.1'', [(''repo-1-a.ts'', 2)])]
   \<and> stored (track_times 2 ''10.0.0.1'' ''repo-1-a.ts'' []) ''10.0.0.1'' ''repo-1-a.ts'' = Some 2
   \<and> stored (untrackConnection ''10.0.0.1'' ''repo-1-a.ts''
               (track_times 2 ''10.0.0.1'' ''repo-1-a.ts'' [])) ''10.0.0.1'' ''repo-1-a.ts'' = Some 1
   \<and> untrackConnection ''10.0.0.1'' ''repo-1-a.ts'' (track_times 1 ''10.0.0.1'' ''repo-1-a.ts'' [])
     = []"
proof -
  let ?two = "track_times 2 ''10.0.0.1'' ''repo-1-a.ts'' []"
  let ?one = "track_times 1 ''10.0.0.1'' ''repo-1-a.ts'' []"
  have r2: "reachable ?two" by (rule reachable_track_times[OF reach_empty])
  have r1: "reachable ?one" by (rule reachable_track_times[OF reach_empty])
  have v2: "?two = [(''10.0.0.1'', [(''repo-1-a.ts'', 2)])]" by code_simp
  have v1: "?one = [(''10.0.0.1'', [(''repo-1-a.ts'', 1)])]" by code_simp
  have q: "quota ?two ''10.0.0.1'' ''repo-1-b.ts'' = 0" unfolding v2 by (simp add: quota_def)
  have s: "stored ?two ''10.0.0.1'' ''repo-1-a.ts'' = Some 2" unfolding v2 by (simp add: stored_def)
  have u: "untrackConnection ''10.0.0.1'' ''repo-1-a.ts'' ?one = []"
    unfolding v1 by (simp add: untrackConnection_def)
  have a: "untrackConnection ''10.0.0.1'' ''repo-1-b.ts'' ?two = ?two"
    using untrackConnection_counts_positive[OF r2, of "''10.0.0.1''" "''repo-1-b.ts''"] q by blast
  have b: "stored (untrackConnection ''10.0.0.1'' ''repo-1-a.ts'' ?two) ''10.0.0.1'' ''repo-1-a.ts''
         = (case stored ?two ''10.0.0.1'' ''repo-1-a.ts'' of
              None \<Rightarrow> None | Some c \<Rightarrow> if c \<le> 1 then None else Some (c - 1))"
    using untrackConnection_counts_positive[OF r2, of "''10.0.0.1''" "''repo-1-a.ts''"] by blast
  have c: "stored (untrackConnection ''10.0.0.1'' ''repo-1-a.ts'' ?two) ''10.0.0.1'' ''repo-1-a.ts''
         = Some 1"
    unfolding b s by simp
  have a': "untrackConnection ''10.0.0.1'' ''repo-1-b.ts'' ?two = [(''10.0.0.1'', [(''repo-1-a.ts'', 2)])]"
    using a v2 by simp
  from a' s c u show ?thesis by blast
qed

section \<open>The document manager\<close>

lemma handleYjsMessage_eq:
  "handleYjsMessage Y roomId message ym =
     Inr (if message = [] then ym
          else (case Y_applyUpdate Y (case map_of (documents ym) roomId of None \<Rightarrow> Y_Doc Y | Some d \<Rightarrow> d) message of
                  Threw doc' \<Rightarrow> ym\<lparr>documents := AList.update roomId doc' (documents ym)\<rparr>
                | Applied doc' \<Rightarrow>
                    ym\<lparr>documents := AList.update roomId doc' (documents ym),
                       documentStates := AList.update roomId (Y_encodeStateAsUpdate Y doc')
                                           (documentStates ym)\<rparr>))"
  unfolding handleYjsMessage_def catch_def Let_def
  by (auto simp: update_conv' split: option.splits apply_result.splits)

text \<open>
  Claim C7, as amended. For every room id and every payload, \<^const>\<open>handleYjsMessage\<close>
  returns normally: no error reaches its caller. An empty payload changes nothing. When the
  library throws on the payload, no state snapshot is stored or changed and the document of
  no other room is touched; the call is still not a no-op, since the room has a document
  afterwards, and it is the document the throwing call left behind. When the library
  accepts the payload, the updated document is stored under the room and its encoded state
  is stored as the room's snapshot.
\<close>

theorem handleYjsMessage_contained:
  "\<exists>ym'. handleYjsMessage Y roomId message ym = Inr ym'
     \<and> (message = [] \<longrightarrow> ym' = ym)
     \<and> (message \<noteq> [] \<longrightarrow>
          (\<forall>doc'. Y_applyUpdate Y (case map_of (documents ym) roomId of None \<Rightarrow> Y_Doc Y | Some d \<Rightarrow> d) message
                     = Threw doc' \<longrightarrow>
             documentStates ym' = documentStates ym
           \<and> documents ym' = AList.update roomId doc' (documents ym))
        \<and> (\<forall>doc'. Y_applyUpdate Y (case map_of (documents ym) roomId of None \<Rightarrow> Y_Doc Y | Some d \<Rightarrow> d) message
                     = Applied doc' \<longrightarrow>
             documents ym' = AList.update roomId doc' (documents ym)
           \<and> documentStates ym'
               = AList.update roomId (Y_encodeStateAsUpdate Y doc') (documentStates ym)))"
  unfolding handleYjsMessage_eq by (auto split: apply_result.splits)

lemma toy_refuse: "Y_applyUpdate toyY d [2] = Threw d"
  by (simp add: toyY_def)

lemma toy_damaged: "Y_applyUpdate toyY d [1, 65] = Threw (d @ [[65]])"
  by (simp add: toyY_def)

lemma toy_accept: "Y_applyUpdate toyY d [0, 104, 105] = Applied (d @ [[104, 105]])"
  by (simp add: toyY_def)

theorem handleYjsMessage_contained_witness:
  "handleYjsMessage toyY ''repo-7-foo.ts'' [0, 104, 105] \<lparr>documents = [], documentStates = []\<rparr>
     = Inr \<lparr>documents = [(''repo-7-foo.ts'', [[104, 105]])],
            documentStates = [(''repo-7-foo.ts'', [104, 105])]\<rparr>
   \<and> handleYjsMessage toyY ''repo-7-foo.ts'' [2]
        \<lparr>documents = [(''repo-7-foo.ts'', [[104, 105]])],
         documentStates = [(''repo-7-foo.ts'', [104, 105])]\<rparr>
     = Inr \<lparr>documents = [(''repo-7-foo.ts'', [[104, 105]])],
            documentStates = [(''repo-7-foo.ts'', [104, 105])]\<rparr>
   \<and> handleYjsMessage toyY ''repo-7-foo.ts'' [1, 65]
        \<lparr>documents = [(''repo-7-foo.ts'', [[104, 105]])],
         documentStates = [(''repo-7-foo.ts'', [104, 105])]\<rparr>
     = Inr \<lparr>documents = [(''repo-7-foo.ts'', [[104, 105], [65]])],
            documentStates = [(''repo-7-foo.ts'', [104, 105])]\<rparr>"
proof -
  let ?e = "\<lparr>documents = [], documentStates = []\<rparr> :: (bytes list) YjsDocumentManager"
  let ?f = "\<lparr>documents = [(''repo-7-foo.ts'', [[104, 105]])],
            documentStates = [(''repo-7-foo.ts'', [104, 105])]\<rparr> :: (bytes list) YjsDocumentManager"
  let ?g = "\<lparr>documents = [(''repo-7-foo.ts'', [[104, 105], [65]])],
            documentStates = [(''repo-7-foo.ts'', [104, 105])]\<rparr> :: (bytes list) YjsDocumentManager"
  obtain ym1 where 1: "handleYjsMessage toyY ''repo-7-foo.ts'' [0, 104, 105] ?e = Inr ym1"
    and d1: "documents ym1 = AList.update ''repo-7-foo.ts'' ([] @ [[104, 105]]) (documents ?e)"
    and s1: "documentStates ym1
               = AList.update ''repo-7-foo.ts'' (Y_encodeStateAsUpdate toyY ([] @ [[104, 105]])) (documentStates ?e)"
    using handleYjsMessage_contained[of toyY "''repo-7-foo.ts''" "[0, 104, 105]" ?e]
    by (auto simp: toy_accept toyY_def)
  have "ym1 = ?f" using d1 s1 by (simp add: toyY_def)
  with 1 have a: "handleYjsMessage toyY ''repo-7-foo.ts'' [0, 104, 105] ?e = Inr ?f" by simp
  obtain ym2 where 2: "handleYjsMessage toyY ''repo-7-foo.ts'' [2] ?f = Inr ym2"
    and d2: "documents ym2 = AList.update ''repo-7-foo.ts'' [[104, 105]] (documents ?f)"
    and s2: "documentStates ym2 = documentStates ?f"
    using handleYjsMessage_contained[of toyY "''repo-7-foo.ts''" "[2]" ?f]
    by (auto simp: toy_refuse)
  have "ym2 = ?f" using d2 s2 by simp
  with 2 have b: "handleYjsMessage toyY ''repo-7-foo.ts'' [2] ?f = Inr ?f" by simp
  obtain ym3 where 3: "handleYjsMessage toyY ''repo-7-foo.ts'' [1, 65] ?f = Inr ym3"
    and d3: "documents ym3 = AList.update ''repo-7-foo.ts'' ([[104, 105]] @ [[65]]) (documents ?f)"
    and s3: "documentStates ym3 = documentStates ?f"
    using handleYjsMessage_contained[of toyY "''repo-7-foo.ts''" "[1, 65]" ?f]
    by (auto simp: toy_damaged)
  have "ym3 = ?g" using d3 s3 by simp
  with 3 have c: "handleYjsMessage toyY ''repo-7-foo.ts'' [1, 65] ?f = Inr ?g" by simp
  from a b c show ?thesis by blast
qed

text \<open>
  Claim C7 as stated fails. On a manager with no document, a payload the library refuses
  without touching anything is not a no-op: the room's document has been created, and
  \<^const>\<open>getDocumentInfo\<close> reports so. And a payload on which the library throws after
  integrating a part of it leaves the stored document changed, with the old snapshot.
\<close>

theorem handleYjsMessage_not_noop:
  "Y_applyUpdate toyY (Y_Doc toyY) [2] = Threw (Y_Doc toyY)
   \<and> handleYjsMessage toyY ''repo-7-foo.ts'' [2] \<lparr>documents = [], documentStates = []\<rparr>
       = Inr \<lparr>documents = [(''repo-7-foo.ts'', [])], documentStates = []\<rparr>
   \<and> handleYjsMessage toyY ''repo-7-foo.ts'' [2] \<lparr>documents = [], documentStates = []\<rparr>
       \<noteq> Inr \<lparr>documents = [], documentStates = []\<rparr>
   \<and> getDocumentInfo toyY ''repo-7-foo.ts'' \<lparr>documents = [], documentStates = []\<rparr> = (False, 0, 0)
   \<and> getDocumentInfo toyY ''repo-7-foo.ts''
        \<lparr>documents = [(''repo-7-foo.ts'', [])], documentStates = []\<rparr> = (True, 0, 0)
   \<and> handleYjsMessage toyY ''repo-7-foo.ts'' [1, 65]
        \<lparr>documents = [(''repo-7-foo.ts'', [[104, 105]])],
         documentStates = [(''repo-7-foo.ts'', [104, 105])]\<rparr>
       = Inr \<lparr>documents = [(''repo-7-foo.ts'', [[104, 105], [65]])],
              documentStates = [(''repo-7-foo.ts'', [104, 105])]\<rparr>
   \<and> getDocumentContent toyY ''repo-7-foo.ts''
        \<lparr>documents = [(''repo-7-foo.ts'', [[104, 105]])],
         documentStates = [(''repo-7-foo.ts'', [104, 105])]\<rparr> = ''hi''
   \<and> getDocumentContent toyY ''repo-7-foo.ts''
        \<lparr>documents = [(''repo-7-foo.ts'', [[104, 105], [65]])],
         documentStates = [(''repo-7-foo.ts'', [104, 105])]\<rparr> = ''hiA''"
proof -
  have a: "Y_applyUpdate toyY (Y_Doc toyY) [2] = Threw (Y_Doc toyY)"
    by (rule toy_refuse)
  have b: "handleYjsMessage toyY ''repo-7-foo.ts'' [2] \<lparr>documents = [], documentStates = []\<rparr>
       = Inr \<lparr>documents = [(''repo-7-foo.ts'', [])], documentStates = []\<rparr>"
    by (simp add: handleYjsMessage_eq toy_refuse) (simp add: toyY_def)
  have c: "handleYjsMessage toyY ''repo-7-foo.ts'' [2] \<lparr>documents = [], documentStates = []\<rparr>
       \<noteq> Inr \<lparr>documents = [], documentStates = []\<rparr>"
    unfolding b by simp
  have d: "getDocumentInfo toyY ''repo-7-foo.ts'' \<lparr>documents = [], documentStates = []\<rparr> = (False, 0, 0)"
    by (simp add: getDocumentInfo_def)
  have e: "getDocumentInfo toyY ''repo-7-foo.ts''
        \<lparr>documents = [(''repo-7-foo.ts'', [])], documentStates = []\<rparr> = (True, 0, 0)"
    by (simp add: getDocumentInfo_def getDocumentContent_def) (simp add: toyY_def)
  have f: "handleYjsMessage toyY ''repo-7-foo.ts'' [1, 65]
        \<lparr>documents = [(''repo-7-foo.ts'', [[104, 105]])],
         documentStates = [(''repo-7-foo.ts'', [104, 105])]\<rparr>
       = Inr \<lparr>documents = [(''repo-7-foo.ts'', [[104, 105], [65]])],
              documentStates = [(''repo-7-foo.ts'', [104, 105])]\<rparr>"
    by (simp add: handleYjsMessage_eq toy_damaged)
  have g: "getDocumentContent toyY ''repo-7-foo.ts''
        \<lparr>documents = [(''repo-7-foo.ts'', [[104, 105]])],
         documentStates = [(''repo-7-foo.ts'', [104, 105])]\<rparr> = ''hi''"
    by code_simp
  have h: "getDocumentContent toyY ''repo-7-foo.ts''
        \<lparr>documents = [(''repo-7-foo.ts'', [[104, 105], [65]])],
         documentStates = [(''repo-7-foo.ts'', [104, 105])]\<rparr> = ''hiA''"
    by code_simp
  show ?thesis
    by (intro conjI) (fact a, fact b, fact c, fact d, fact e, fact f, fact g, fact h)
qed

text \<open>
  Claim C8. \<^const>\<open>getDocumentContent\<close> returns the empty string when the room has no
  document, and the string the library reads from the text field \<^verbatim>\<open>monaco-content\<close> of
  the room's document when there is one.
\<close>

theorem getDocumentContent_reads_text:
  "(map_of (documents ym) roomId = None \<longrightarrow> getDocumentContent Y roomId ym = '''')
   \<and> (\<forall>doc content. map_of (documents ym) roomId = Some doc
          \<and> Y_getText Y doc ''monaco-content'' = Some content \<longrightarrow>
          getDocumentContent Y roomId ym = content)"
  by (simp add: getDocumentContent_def)

theorem getDocumentContent_reads_text_witness:
  "getDocumentContent toyY ''repo-7-foo.ts'' \<lparr>documents = [], documentStates = []\<rparr> = ''''
   \<and> getDocumentContent toyY ''repo-7-foo.ts''
        \<lparr>documents = [(''repo-7-foo.ts'', [[104, 105]])],
         documentStates = [(''repo-7-foo.ts'', [104, 105])]\<rparr> = ''hi''"
proof -
  let ?e = "\<lparr>documents = [], documentStates = []\<rparr> :: (bytes list) YjsDocumentManager"
  let ?f = "\<lparr>documents = [(''repo-7-foo.ts'', [[104, 105]])],
            documentStates = [(''repo-7-foo.ts'', [104, 105])]\<rparr> :: (bytes list) YjsDocumentManager"
  have t: "Y_getText toyY [[104, 105]] ''monaco-content'' = Some ''hi''"
    by code_simp
  have a: "getDocumentContent toyY ''repo-7-foo.ts'' ?e = ''''"
    using getDocumentContent_reads_text[of ?e "''repo-7-foo.ts''" toyY] by simp
  have b: "getDocumentContent toyY ''repo-7-foo.ts'' ?f = ''hi''"
    using getDocumentContent_reads_text[of ?f "''repo-7-foo.ts''" toyY] t by simp
  from a b show ?thesis by blast
qed

section \<open>The save trigger\<close>

lemma star_mono:
  assumes "w \<in> star A" "A \<subseteq> B"
  shows "w \<in> star B"
  using assms by (induction rule: star.induct) (auto intro: star.intros)

lemma lang_Seq_mono:
  "lang r \<subseteq> lang r' \<Longrightarrow> lang s \<subseteq> lang s' \<Longrightarrow> lang (Seq r s) \<subseteq> lang (Seq r' s')"
  by auto

lemma lang_Plus_mono: "lang r \<subseteq> lang r' \<Longrightarrow> lang (Plus r) \<subseteq> lang (Plus r')"
  unfolding Plus_def using star_mono[of _ "lang r" "lang r'"] by auto

lemma parseRoomId_regex_shape: "test_anchored parseRoomId_regex roomId \<Longrightarrow> spec_repo_shape roomId"
proof -
  have "lang (Plus (Atom Dot)) \<subseteq> lang (Plus (Atom AnyChar))"
    by (rule lang_Plus_mono) auto
  then have "lang parseRoomId_regex
      \<subseteq> lang (Seq (Str ''repo-'') (Seq (Plus (Atom Digit))
                (Seq (Atom (Lit CHR ''-'')) (Plus (Atom AnyChar)))))"
    unfolding parseRoomId_regex_def
    by (intro lang_Seq_mono subset_refl)
  then show "test_anchored parseRoomId_regex roomId \<Longrightarrow> spec_repo_shape roomId"
    unfolding test_anchored_def spec_repo_shape_def matches_lang by blast
qed

text \<open>
  Claim C10. For every content, \<^const>\<open>triggerSaveAPI\<close> on a room id that is not of the
  shape \<^verbatim>\<open>repo-<int>-<filePath>\<close> with a non-empty file path returns normally and makes
  no HTTP request.
\<close>

theorem triggerSaveAPI_unparsed_room:
  assumes "\<not> spec_repo_shape roomId"
  shows "triggerSaveAPI apiBaseUrl fetch roomId content = (Inr (), [])"
proof -
  have "parseRoomId roomId = None"
    using assms parseRoomId_regex_shape[of roomId] by (auto simp: parseRoomId_def)
  then show ?thesis by (simp add: triggerSaveAPI_def)
qed

lemma not_shape_filetree: "\<not> spec_repo_shape ''filetree-42''"
  by code_simp

lemma not_shape_repo7: "\<not> spec_repo_shape ''repo-7''"
  by code_simp

theorem triggerSaveAPI_unparsed_room_witness:
  "\<not> spec_repo_shape ''filetree-42'' \<and> \<not> spec_repo_shape ''repo-7''
   \<and> triggerSaveAPI ''http://localhost:3000/api'' (\<lambda>request. Inl ''ECONNREFUSED'') ''filetree-42'' ''x''
       = (Inr (), [])
   \<and> triggerSaveAPI ''http://localhost:3000/api'' (\<lambda>request. Inl ''ECONNREFUSED'') ''repo-7'' ''x''
       = (Inr (), [])"
  using triggerSaveAPI_unparsed_room[OF not_shape_filetree]
        triggerSaveAPI_unparsed_room[OF not_shape_repo7] not_shape_filetree not_shape_repo7
  by blast

section \<open>The connection handler\<close>

lemma ws_close_fields:
  "rooms (fst (ws_close ws code reason s)) = rooms s"
  "connectionTracker (fst (ws_close ws code reason s)) = connectionTracker s"
  "gracePeriods (fst (ws_close ws code reason s)) = gracePeriods s"
  "yjsManager (fst (ws_close ws code reason s)) = yjsManager s"
  "timers (fst (ws_close ws code reason s)) = timers s"
  "snd (ws_close ws code reason s) = [WsClose ws code reason]"
  by (simp_all add: ws_close_def)

lemma spec_unsupported:
  assumes "spec_classify roomId = Unsupported"
  shows "roomId \<noteq> ''default''" "\<not> isFileTreeRoom roomId" "\<not> isSavePointRoom roomId"
  using assms
  by (auto simp: spec_classify_def isFileTreeRoom_def isSavePointRoom_def test_anchored_def
           split: if_splits)

text \<open>
  Claim C3, as amended. A connection whose room id the specification's classifier calls
  unsupported, and that does not match the server's pattern \<^verbatim>\<open>/^repo-\d+(-.*)?$/\<close> either,
  is closed with code 1008 (\<^verbatim>\<open>Unauthorized room access\<close>): nothing else happens, no room
  and no quota entry is written.
\<close>

theorem unsupported_room_refused:
  assumes "url request = Some (c # roomId)" "roomId \<noteq> []"
    and "spec_classify roomId = Unsupported" "\<not> isCodeEditorRoom roomId"
  shows "handleClientConnection maxClientsPerRoom now clientId ws request s
           = ws_close ws 1008 ''Unauthorized room access'' s
       \<and> snd (handleClientConnection maxClientsPerRoom now clientId ws request s)
           = [WsClose ws 1008 ''Unauthorized room access'']
       \<and> rooms (fst (handleClientConnection maxClientsPerRoom now clientId ws request s)) = rooms s
       \<and> connectionTracker (fst (handleClientConnection maxClientsPerRoom now clientId ws request s))
           = connectionTracker s"
proof -
  have "roomId \<noteq> ''default'' \<and> \<not> isAllowedRoom roomId"
    using spec_unsupported[OF assms(3)] assms(4) by (simp add: isAllowedRoom_def)
  then have "handleClientConnection maxClientsPerRoom now clientId ws request s
           = ws_close ws 1008 ''Unauthorized room access'' s"
    using assms(1,2) by (simp add: handleClientConnection_def Let_def)
  then show ?thesis by (simp add: ws_close_fields)
qed

lemma unsupported_x: "spec_classify ''chat-12'' = Unsupported"
  by code_simp

lemma not_editor_x: "\<not> isCodeEditorRoom ''chat-12''"
  by code_simp

theorem unsupported_room_refused_witness:
  "spec_classify ''chat-12'' = Unsupported
   \<and> snd (handleClientConnection 50 1000 ''client_1000_abc'' 0
            \<lparr>url = Some ''/chat-12'', remoteAddress = Some ''10.0.0.1''\<rparr>
            (newServer 120000 :: (bytes list) server))
       = [WsClose 0 1008 ''Unauthorized room access'']
   \<and> rooms (fst (handleClientConnection 50 1000 ''client_1000_abc'' 0
            \<lparr>url = Some ''/chat-12'', remoteAddress = Some ''10.0.0.1''\<rparr>
            (newServer 120000 :: (bytes list) server))) = []"
proof -
  have u: "url \<lparr>url = Some ''/chat-12'', remoteAddress = Some ''10.0.0.1''\<rparr> = Some (CHR ''/'' # ''chat-12'')"
    by simp
  have n: "''chat-12'' \<noteq> []" by simp
  have r: "rooms (newServer 120000 :: (bytes list) server) = []" by (simp add: newServer_def)
  show ?thesis
    using unsupported_room_refused[OF u n unsupported_x not_editor_x, of 50 1000 "''client_1000_abc''" 0
            "newServer 120000 :: (bytes list) server"] unsupported_x r
    by (simp add: ws_close_fields)
qed

lemma allowed_repo7: "isAllowedRoom ''repo-7''"
  by code_simp

lemma unsupported_repo7: "spec_classify ''repo-7'' = Unsupported"
  by code_simp

text \<open>
  Claim C3 as stated fails for \<^verbatim>\<open>repo-7\<close>: the specification's classifier calls the id
  unsupported, the server's pattern makes the dash and the rest optional, and the
  connection is admitted to the room \<^verbatim>\<open>repo-7\<close> and never closed.
\<close>

theorem bare_repo_room_admitted:
  "spec_classify ''repo-7'' = Unsupported
   \<and> snd (handleClientConnection 50 1000 ''client_1000_abc'' 0
            \<lparr>url = Some ''/repo-7'', remoteAddress = Some ''10.0.0.1''\<rparr>
            (newServer 120000 :: (bytes list) server))
       = [TrackConnection ''10.0.0.1'' ''repo-7'' True, ClientsAdd ''repo-7'' 0]
   \<and> map_option room_clients
        (map_of (rooms (fst (handleClientConnection 50 1000 ''client_1000_abc'' 0
            \<lparr>url = Some ''/repo-7'', remoteAddress = Some ''10.0.0.1''\<rparr>
            (newServer 120000 :: (bytes list) server)))) ''repo-7'') = Some [0]"
  using allowed_repo7 unsupported_repo7
  by (simp add: handleClientConnection_def Let_def trackConnection_def
        MAX_CONNECTIONS_PER_IP_PER_ROOM_def newServer_def getActiveClientCount_def addClient_def)

lemma addClient_events:
  "snd (snd (addClient now roomId client s)) \<in>
     {[], [ClientsAdd roomId client]} \<union>
     {[ClearTimeout t] | t. True} \<union> {[ClearTimeout t, ClientsAdd roomId client] | t. True}"
  unfolding addClient_def Let_def
  by (auto split: option.splits prod.splits)

lemma addClient_no_close: "WsClose ws code reason \<notin> set (snd (snd (addClient now roomId client s)))"
  using addClient_events[of now roomId client s] by auto

lemma getActiveClientCount_tracker [simp]:
  "getActiveClientCount (s\<lparr>connectionTracker := ct\<rparr>) roomId = getActiveClientCount s roomId"
  by (simp add: getActiveClientCount_def split: option.splits)

text \<open>
  Claim C5. Whenever the handler closes a connection with 1008 (\<^verbatim>\<open>Room capacity exceeded\<close>),
  it has admitted the connection to the quota table, found the room's active client count
  at or above the cap, released the quota slot and only then closed the socket; the quota
  table ends as it was before the connection, and no room is touched.
\<close>

theorem capacity_refusal_releases_quota:
  assumes reach: "reachable (connectionTracker s)"
    and refused: "WsClose ws 1008 ''Room capacity exceeded''
        \<in> set (snd (handleClientConnection maxClientsPerRoom now clientId ws request s))"
  shows "connectionTracker (fst (handleClientConnection maxClientsPerRoom now clientId ws request s))
           = connectionTracker s
       \<and> rooms (fst (handleClientConnection maxClientsPerRoom now clientId ws request s)) = rooms s
       \<and> (\<exists>clientIP roomId.
             snd (handleClientConnection maxClientsPerRoom now clientId ws request s)
               = [TrackConnection clientIP roomId True, UntrackConnection clientIP roomId,
                  WsClose ws 1008 ''Room capacity exceeded'']
           \<and> fst (trackConnection clientIP roomId (connectionTracker s))
           \<and> untrackConnection clientIP roomId
                (snd (trackConnection clientIP roomId (connectionTracker s))) = connectionTracker s
           \<and> maxClientsPerRoom \<le> getActiveClientCount s roomId)"
proof -
  define clientIP where "clientIP = (case remoteAddress request of
                        None \<Rightarrow> ''unknown''
                      | Some a \<Rightarrow> if a = [] then ''unknown'' else a)"
  define roomId where "roomId =
      (if drop 1 (case url request of None \<Rightarrow> [] | Some u \<Rightarrow> u) = [] then ''default''
       else drop 1 (case url request of None \<Rightarrow> [] | Some u \<Rightarrow> u))"
  let ?h = "handleClientConnection maxClientsPerRoom now clientId ws request s"
  obtain granted ct where tr: "trackConnection clientIP roomId (connectionTracker s) = (granted, ct)"
    by (cases "trackConnection clientIP roomId (connectionTracker s)")
  have h: "?h =
    (if roomId \<noteq> ''default'' \<and> \<not> isAllowedRoom roomId
     then ws_close ws 1008 ''Unauthorized room access'' s
     else if roomId = ''default'' then ws_close ws 1000 ''Test connection'' s
     else if \<not> granted
     then (fst (ws_close ws 1008 ''Too many connections per IP per room'' (s\<lparr>connectionTracker := ct\<rparr>)),
           TrackConnection clientIP roomId False
             # snd (ws_close ws 1008 ''Too many connections per IP per room'' (s\<lparr>connectionTracker := ct\<rparr>)))
     else if maxClientsPerRoom \<le> getActiveClientCount s roomId
     then (fst (ws_close ws 1008 ''Room capacity exceeded''
                  (s\<lparr>connectionTracker := untrackConnection clientIP roomId ct\<rparr>)),
           [TrackConnection clientIP roomId True, UntrackConnection clientIP roomId,
            WsClose ws 1008 ''Room capacity exceeded''])
     else (fst (snd (addClient now roomId ws
                 (s\<lparr>connectionTracker := ct,
                    sockets := (sockets s)
                      (ws := (sockets s ws)
                         \<lparr>ws_roomId := Some roomId, ws_clientId := Some clientId,
                          ws_isAlive := Some True, ws_connectedAt := Some now,
                          ws_lastActivity := Some now,
                          ws_socket := (case ws_socket (sockets s ws) of
                                          None \<Rightarrow> Some (Some clientIP)
                                        | Some x \<Rightarrow> Some x)\<rparr>)\<rparr>))),
           TrackConnection clientIP roomId True
             # snd (snd (addClient now roomId ws
                 (s\<lparr>connectionTracker := ct,
                    sockets := (sockets s)
                      (ws := (sockets s ws)
                         \<lparr>ws_roomId := Some roomId, ws_clientId := Some clientId,
                          ws_isAlive := Some True, ws_connectedAt := Some now,
                          ws_lastActivity := Some now,
                          ws_socket := (case ws_socket (sockets s ws) of
                                          None \<Rightarrow> Some (Some clientIP)
                                        | Some x \<Rightarrow> Some x)\<rparr>)\<rparr>)))))"
    unfolding handleClientConnection_def Let_def clientIP_def[symmetric] roomId_def[symmetric] tr
    by (cases granted) (simp_all add: case_prod_beta ws_close_fields)
  have branch: "\<not> (roomId \<noteq> ''default'' \<and> \<not> isAllowedRoom roomId) \<and> roomId \<noteq> ''default''
      \<and> granted \<and> maxClientsPerRoom \<le> getActiveClientCount s roomId"
    using refused unfolding h
    by (auto simp: ws_close_fields addClient_no_close split: if_splits)
  have inv: "tracker_inv (connectionTracker s)" using reach by (rule reachable_inv)
  have q: "quota (connectionTracker s) clientIP roomId < MAX_CONNECTIONS_PER_IP_PER_ROOM"
  proof (rule ccontr)
    assume "\<not> quota (connectionTracker s) clientIP roomId < MAX_CONNECTIONS_PER_IP_PER_ROOM"
    then have "trackConnection clientIP roomId (connectionTracker s) = (False, connectionTracker s)"
      by (simp add: track_refused)
    with tr branch show False by simp
  qed
  have restored: "untrackConnection clientIP roomId ct = connectionTracker s"
    using untrack_track[OF inv q] tr by simp
  have res: "?h = (fst (ws_close ws 1008 ''Room capacity exceeded''
                  (s\<lparr>connectionTracker := connectionTracker s\<rparr>)),
           [TrackConnection clientIP roomId True, UntrackConnection clientIP roomId,
            WsClose ws 1008 ''Room capacity exceeded''])"
    using branch restored unfolding h by auto
  show ?thesis
    unfolding res using branch restored tr
    by (auto simp: ws_close_fields intro!: exI[of _ clientIP] exI[of _ roomId])
qed


lemma allowed_repo1: "isAllowedRoom ''repo-1-a.ts''"
  by code_simp

lemma oneClient_fields:
  "connectionTracker oneClient = [(''10.0.0.1'', [(''repo-1-a.ts'', 1)])]"
  "rooms oneClient = [(''repo-1-a.ts'', \<lparr>room_id = ''repo-1-a.ts'', room_clients = [0],
                        room_createdAt = 1000, room_lastActivity = 1000\<rparr>)]"
  "isActiveClient (sockets oneClient 0)"
  "gracePeriods oneClient = []"
  using allowed_repo1
  by (simp_all add: oneClient_def handleClientConnection_def Let_def trackConnection_def
        MAX_CONNECTIONS_PER_IP_PER_ROOM_def newServer_def getActiveClientCount_def addClient_def
        isActiveClient_def acceptedSocket_def truthy_def)

lemma oneClient_second:
  "snd (handleClientConnection 1 2000 ''client_2000_def'' 1
          \<lparr>url = Some ''/repo-1-a.ts'', remoteAddress = Some ''10.0.0.1''\<rparr> oneClient)
     = [TrackConnection ''10.0.0.1'' ''repo-1-a.ts'' True, UntrackConnection ''10.0.0.1'' ''repo-1-a.ts'',
        WsClose 1 1008 ''Room capacity exceeded'']"
  using allowed_repo1
  by (simp add: handleClientConnection_def Let_def trackConnection_def
        MAX_CONNECTIONS_PER_IP_PER_ROOM_def getActiveClientCount_def oneClient_fields ws_close_def)

theorem capacity_refusal_releases_quota_witness:
  "snd (handleClientConnection 1 2000 ''client_2000_def'' 1
          \<lparr>url = Some ''/repo-1-a.ts'', remoteAddress = Some ''10.0.0.1''\<rparr> oneClient)
     = [TrackConnection ''10.0.0.1'' ''repo-1-a.ts'' True, UntrackConnection ''10.0.0.1'' ''repo-1-a.ts'',
        WsClose 1 1008 ''Room capacity exceeded'']
   \<and> connectionTracker (fst (handleClientConnection 1 2000 ''client_2000_def'' 1
          \<lparr>url = Some ''/repo-1-a.ts'', remoteAddress = Some ''10.0.0.1''\<rparr> oneClient))
     = [(''10.0.0.1'', [(''repo-1-a.ts'', 1)])]"
proof -
  have "reachable (snd (trackConnection ''10.0.0.1'' ''repo-1-a.ts'' []))"
    by (rule reach_track[OF reach_empty])
  then have r: "reachable (connectionTracker oneClient)"
    by (simp add: oneClient_fields trackConnection_def MAX_CONNECTIONS_PER_IP_PER_ROOM_def)
  have c: "WsClose 1 1008 ''Room capacity exceeded''
        \<in> set (snd (handleClientConnection 1 2000 ''client_2000_def'' 1
          \<lparr>url = Some ''/repo-1-a.ts'', remoteAddress = Some ''10.0.0.1''\<rparr> oneClient))"
    unfolding oneClient_second by simp
  have "connectionTracker (fst (handleClientConnection 1 2000 ''client_2000_def'' 1
          \<lparr>url = Some ''/repo-1-a.ts'', remoteAddress = Some ''10.0.0.1''\<rparr> oneClient))
     = connectionTracker oneClient"
    using capacity_refusal_releases_quota[OF r c] by blast
  then show ?thesis
    unfolding oneClient_second oneClient_fields(1) by simp
qed

section \<open>Broadcast\<close>

lemma handleYjsMessage_Inr: "\<exists>ym'. handleYjsMessage Y roomId message ym = Inr ym'"
  unfolding handleYjsMessage_eq by blast

lemma broadcast_forEach_acc:
  "broadcast_forEach sendThrows socks message sender clients (n, dead, ev) =
     (n + length (filter (\<lambda>c. c \<noteq> sender \<and> ws_readyState (socks c) = 1 \<and> \<not> sendThrows c) clients),
      dead @ filter (\<lambda>c. c \<noteq> sender \<and> (ws_readyState (socks c) \<noteq> 1 \<or> sendThrows c)) clients,
      ev @ map (\<lambda>c. WsSend c message (\<not> sendThrows c))
             (filter (\<lambda>c. c \<noteq> sender \<and> ws_readyState (socks c) = 1) clients))"
  by (induction clients arbitrary: n dead ev) auto

lemma deleteClients_filter: "deleteClients dead clients = filter (\<lambda>c. c \<notin> set dead) clients"
proof (induction dead arbitrary: clients)
  case Nil show ?case by simp
next
  case (Cons d dead)
  show ?case by (simp add: Cons removeAll_filter_not_eq) (metis)
qed

lemma deleteClients_dead: "deleteClients (filter P xs) xs = filter (\<lambda>c. \<not> P c) xs"
  unfolding deleteClients_filter by (rule filter_cong) auto

lemma broadcast_eq:
  assumes "map_of (rooms s) roomId = Some room"
    and "handleYjsMessage Y roomId message (yjsManager s) = Inr ym"
  shows "broadcast Y sendThrows now roomId message sender s =
     Inr (length (filter (\<lambda>c. c \<noteq> sender \<and> ws_readyState (sockets s c) = 1 \<and> \<not> sendThrows c)
                    (room_clients room)),
          (if SaveManager_isCodeEditorRoom roomId then s\<lparr>yjsManager := ym\<rparr> else s)
            \<lparr>rooms := AList.update roomId
               (room\<lparr>room_clients :=
                       filter (\<lambda>c. \<not> (c \<noteq> sender \<and> (ws_readyState (sockets s c) \<noteq> 1 \<or> sendThrows c)))
                         (room_clients room),
                     room_lastActivity := now\<rparr>) (rooms s)\<rparr>,
          (if SaveManager_isCodeEditorRoom roomId then [HandleYjsMessage roomId message] else [])
          @ map (\<lambda>c. WsSend c message (\<not> sendThrows c))
              (filter (\<lambda>c. c \<noteq> sender \<and> ws_readyState (sockets s c) = 1) (room_clients room))
          @ map (ClientsDelete roomId)
              (filter (\<lambda>c. c \<noteq> sender \<and> (ws_readyState (sockets s c) \<noteq> 1 \<or> sendThrows c))
                 (room_clients room)))"
  unfolding broadcast_def Let_def using assms
  by (simp add: broadcast_forEach_acc deleteClients_dead)


text \<open>
  Claim C1, as amended. A broadcast on an existing room whose id
  \<^verbatim>\<open>SaveManager.isCodeEditorRoom\<close> accepts (\<^verbatim>\<open>/^repo-\d+-[^\/]+/\<close>, the test \<^const>\<open>broadcast\<close>
  makes) calls \<^const>\<open>handleYjsMessage\<close> on the payload first: the call opens the log, and
  every send and every eviction follows it. Whichever sends throw, the document manager
  after the broadcast is the one \<^const>\<open>handleYjsMessage\<close> returned: when the library accepts
  a non-empty payload, the room's document is the updated one and the room's snapshot is
  its encoded state.
\<close>

theorem broadcast_applies_update_first:
  assumes "map_of (rooms s) roomId = Some room" and "SaveManager_isCodeEditorRoom roomId"
  shows "\<exists>n s' ev.
           broadcast Y sendThrows now roomId message sender s
             = Inr (n, s', HandleYjsMessage roomId message # ev)
         \<and> ev = map (\<lambda>c. WsSend c message (\<not> sendThrows c))
                    (filter (\<lambda>c. c \<noteq> sender \<and> ws_readyState (sockets s c) = 1) (room_clients room))
                @ map (ClientsDelete roomId)
                    (filter (\<lambda>c. c \<noteq> sender \<and> (ws_readyState (sockets s c) \<noteq> 1 \<or> sendThrows c))
                       (room_clients room))
         \<and> handleYjsMessage Y roomId message (yjsManager s) = Inr (yjsManager s')
         \<and> (message \<noteq> [] \<longrightarrow>
              (\<forall>doc'. Y_applyUpdate Y
                        (case map_of (documents (yjsManager s)) roomId of
                           None \<Rightarrow> Y_Doc Y | Some d \<Rightarrow> d) message = Applied doc' \<longrightarrow>
                 map_of (documents (yjsManager s')) roomId = Some doc'
               \<and> map_of (documentStates (yjsManager s')) roomId
                   = Some (Y_encodeStateAsUpdate Y doc')))"
proof -
  obtain ym where ym: "handleYjsMessage Y roomId message (yjsManager s) = Inr ym"
    using handleYjsMessage_Inr by blast
  have replica: "map_of (documents ym) roomId = Some doc'
       \<and> map_of (documentStates ym) roomId = Some (Y_encodeStateAsUpdate Y doc')"
    if "message \<noteq> []"
      and "Y_applyUpdate Y (case map_of (documents (yjsManager s)) roomId of
                             None \<Rightarrow> Y_Doc Y | Some d \<Rightarrow> d) message = Applied doc'"
    for doc'
    using ym that unfolding handleYjsMessage_eq by (auto simp: update_conv')
  show ?thesis
    unfolding broadcast_eq[OF assms(1) ym] using assms(2) ym replica by simp
qed

lemma editor_foo: "SaveManager_isCodeEditorRoom ''repo-7-foo.ts''"
  by code_simp

lemma fourClients_room:
  "map_of (rooms fourClients) ''repo-7-foo.ts''
     = Some \<lparr>room_id = ''repo-7-foo.ts'', room_clients = [0, 1, 2, 3],
              room_createdAt = 1000, room_lastActivity = 1000\<rparr>"
  by (simp add: fourClients_def)

lemma fourClients_yjs:
  "handleYjsMessage toyY ''repo-7-foo.ts'' [0, 104, 105] (yjsManager fourClients)
     = Inr \<lparr>documents = [(''repo-7-foo.ts'', [[104, 105]])],
            documentStates = [(''repo-7-foo.ts'', [104, 105])]\<rparr>"
  by (simp add: handleYjsMessage_eq fourClients_def newServer_def toyY_def)

lemma foo_text:
  "getDocumentContent toyY ''repo-7-foo.ts''
     \<lparr>documents = [(''repo-7-foo.ts'', [[104, 105]])],
      documentStates = [(''repo-7-foo.ts'', [104, 105])]\<rparr> = ''hi''"
  by code_simp

theorem broadcast_applies_update_first_witness:
  "\<exists>n s'. broadcast toyY (\<lambda>c. True) 5000 ''repo-7-foo.ts'' [0, 104, 105] 0 fourClients
             = Inr (n, s',
                 [HandleYjsMessage ''repo-7-foo.ts'' [0, 104, 105],
                  WsSend 1 [0, 104, 105] False, WsSend 2 [0, 104, 105] False,
                  ClientsDelete ''repo-7-foo.ts'' 1, ClientsDelete ''repo-7-foo.ts'' 2,
                  ClientsDelete ''repo-7-foo.ts'' 3])
           \<and> getDocumentContent toyY ''repo-7-foo.ts'' (yjsManager s') = ''hi''"
proof -
  obtain n s' ev where
    b: "broadcast toyY (\<lambda>c. True) 5000 ''repo-7-foo.ts'' [0, 104, 105] 0 fourClients
          = Inr (n, s', HandleYjsMessage ''repo-7-foo.ts'' [0, 104, 105] # ev)"
    and ev: "ev = map (\<lambda>c. WsSend c [0, 104, 105] (\<not> True))
                    (filter (\<lambda>c. c \<noteq> 0 \<and> ws_readyState (sockets fourClients c) = 1) [0, 1, 2, 3])
                @ map (ClientsDelete ''repo-7-foo.ts'')
                    (filter (\<lambda>c. c \<noteq> 0 \<and> (ws_readyState (sockets fourClients c) \<noteq> 1 \<or> True))
                       [0, 1, 2, 3])"
    and y: "handleYjsMessage toyY ''repo-7-foo.ts'' [0, 104, 105] (yjsManager fourClients)
              = Inr (yjsManager s')"
    using broadcast_applies_update_first[OF fourClients_room editor_foo, of toyY "\<lambda>c. True" 5000
            "[0, 104, 105]" 0]
    by auto
  have ev': "ev = [WsSend 1 [0, 104, 105] False, WsSend 2 [0, 104, 105] False,
                  ClientsDelete ''repo-7-foo.ts'' 1, ClientsDelete ''repo-7-foo.ts'' 2,
                  ClientsDelete ''repo-7-foo.ts'' 3]"
    unfolding ev by (simp add: fourClients_def newServer_def acceptedSocket_def)
  have "yjsManager s' = \<lparr>documents = [(''repo-7-foo.ts'', [[104, 105]])],
            documentStates = [(''repo-7-foo.ts'', [104, 105])]\<rparr>"
    using y fourClients_yjs by simp
  then have t: "getDocumentContent toyY ''repo-7-foo.ts'' (yjsManager s') = ''hi''"
    using foo_text by simp
  from b ev' t show ?thesis by blast
qed

lemma slash_classified:
  "spec_classify ''repo-7-/src/main.ts'' = CodeEditor"
  "isCodeEditorRoom ''repo-7-/src/main.ts''"
  "isAllowedRoom ''repo-7-/src/main.ts''"
  "\<not> SaveManager_isCodeEditorRoom ''repo-7-/src/main.ts''"
  by code_simp+

lemma slashRoom_fields:
  "rooms slashRoom = [(''repo-7-/src/main.ts'',
                        \<lparr>room_id = ''repo-7-/src/main.ts'', room_clients = [0, 1],
                         room_createdAt = 1000, room_lastActivity = 1001\<rparr>)]"
  "yjsManager slashRoom = \<lparr>documents = [], documentStates = []\<rparr>"
  "\<And>c. ws_readyState (sockets slashRoom c) = Suc 0"
  using slash_classified(3)
  by (simp_all add: slashRoom_def handleClientConnection_def Let_def trackConnection_def
        MAX_CONNECTIONS_PER_IP_PER_ROOM_def newServer_def getActiveClientCount_def addClient_def
        isActiveClient_def acceptedSocket_def truthy_def)

text \<open>
  Claim C1 as stated fails for the room \<^verbatim>\<open>repo-7-/src/main.ts\<close>. The specification's
  classifier and the server's pattern both make it a code-editor room, and the handler
  admits its clients; \<^verbatim>\<open>SaveManager.isCodeEditorRoom\<close> wants a character other than a
  slash after the second dash, so \<^const>\<open>broadcast\<close> relays the payload without calling
  \<^const>\<open>handleYjsMessage\<close>, and the room has no document afterwards.
\<close>

theorem slash_room_not_mirrored:
  "spec_classify ''repo-7-/src/main.ts'' = CodeEditor
   \<and> isCodeEditorRoom ''repo-7-/src/main.ts''
   \<and> \<not> SaveManager_isCodeEditorRoom ''repo-7-/src/main.ts''
   \<and> map_option room_clients (map_of (rooms slashRoom) ''repo-7-/src/main.ts'') = Some [0, 1]
   \<and> \<not> isl (broadcast toyY (\<lambda>c. False) 5000 ''repo-7-/src/main.ts'' [0, 104, 105] 0 slashRoom)
   \<and> fst (projr (broadcast toyY (\<lambda>c. False) 5000 ''repo-7-/src/main.ts'' [0, 104, 105] 0 slashRoom))
       = 1
   \<and> snd (snd (projr (broadcast toyY (\<lambda>c. False) 5000 ''repo-7-/src/main.ts'' [0, 104, 105] 0
                       slashRoom)))
       = [WsSend 1 [0, 104, 105] True]
   \<and> yjsManager (fst (snd (projr (broadcast toyY (\<lambda>c. False) 5000 ''repo-7-/src/main.ts''
                                   [0, 104, 105] 0 slashRoom))))
       = \<lparr>documents = [], documentStates = []\<rparr>
   \<and> getDocumentInfo toyY ''repo-7-/src/main.ts''
        (yjsManager (fst (snd (projr (broadcast toyY (\<lambda>c. False) 5000 ''repo-7-/src/main.ts''
                                        [0, 104, 105] 0 slashRoom)))))
       = (False, 0, 0)"
  using slash_classified
  by (simp add: broadcast_def slashRoom_fields Let_def getDocumentInfo_def)

text \<open>
  Claim C2. A broadcast on an existing room returns normally, with the number of members
  other than the sender whose socket was open and whose send did not throw. Every open
  member other than the sender is sent to, in the order of the set, also after a send that
  threw. The members whose send threw or whose socket was not open are deleted from the
  set after the last send, and nobody else is.
\<close>

theorem broadcast_counts_deliveries:
  assumes "map_of (rooms s) roomId = Some room"
  shows "\<exists>s'. broadcast Y sendThrows now roomId message sender s
           = Inr (length (filter (\<lambda>c. c \<noteq> sender \<and> ws_readyState (sockets s c) = 1 \<and> \<not> sendThrows c)
                           (room_clients room)),
                  s',
                  (if SaveManager_isCodeEditorRoom roomId then [HandleYjsMessage roomId message] else [])
                  @ map (\<lambda>c. WsSend c message (\<not> sendThrows c))
                      (filter (\<lambda>c. c \<noteq> sender \<and> ws_readyState (sockets s c) = 1) (room_clients room))
                  @ map (ClientsDelete roomId)
                      (filter (\<lambda>c. c \<noteq> sender \<and> (ws_readyState (sockets s c) \<noteq> 1 \<or> sendThrows c))
                         (room_clients room)))
         \<and> map_of (rooms s') roomId
             = Some (room\<lparr>room_clients :=
                             filter (\<lambda>c. \<not> (c \<noteq> sender \<and> (ws_readyState (sockets s c) \<noteq> 1 \<or> sendThrows c)))
                               (room_clients room),
                           room_lastActivity := now\<rparr>)
         \<and> (distinct (room_clients room) \<longrightarrow>
               length (filter (\<lambda>c. c \<noteq> sender \<and> ws_readyState (sockets s c) = 1 \<and> \<not> sendThrows c)
                         (room_clients room))
               = card {c \<in> set (room_clients room).
                        c \<noteq> sender \<and> ws_readyState (sockets s c) = 1 \<and> \<not> sendThrows c})"
proof -
  obtain ym where ym: "handleYjsMessage Y roomId message (yjsManager s) = Inr ym"
    using handleYjsMessage_Inr by blast
  have c: "distinct (room_clients room) \<Longrightarrow>
       length (filter (\<lambda>c. c \<noteq> sender \<and> ws_readyState (sockets s c) = 1 \<and> \<not> sendThrows c)
                         (room_clients room))
               = card {c \<in> set (room_clients room).
                        c \<noteq> sender \<and> ws_readyState (sockets s c) = 1 \<and> \<not> sendThrows c}"
    by (simp add: distinct_length_filter Int_def conj_commute)
  show ?thesis
    unfolding broadcast_eq[OF assms(1) ym] using c by (simp add: update_conv')
qed

theorem broadcast_counts_deliveries_witness:
  "\<exists>s'. broadcast toyY (\<lambda>c. c = 2) 5000 ''repo-7-foo.ts'' [0, 104, 105] 0 fourClients
           = Inr (1, s',
                 [HandleYjsMessage ''repo-7-foo.ts'' [0, 104, 105],
                  WsSend 1 [0, 104, 105] True, WsSend 2 [0, 104, 105] False,
                  ClientsDelete ''repo-7-foo.ts'' 2, ClientsDelete ''repo-7-foo.ts'' 3])
         \<and> map_option room_clients (map_of (rooms s') ''repo-7-foo.ts'') = Some [0, 1]"
proof -
  obtain s' where
    b: "broadcast toyY (\<lambda>c. c = 2) 5000 ''repo-7-foo.ts'' [0, 104, 105] 0 fourClients
          = Inr (length (filter (\<lambda>c. c \<noteq> 0 \<and> ws_readyState (sockets fourClients c) = 1 \<and> \<not> c = 2)
                           [0, 1, 2, 3]),
                 s',
                 (if SaveManager_isCodeEditorRoom ''repo-7-foo.ts''
                  then [HandleYjsMessage ''repo-7-foo.ts'' [0, 104, 105]] else [])
                 @ map (\<lambda>c. WsSend c [0, 104, 105] (\<not> c = 2))
                     (filter (\<lambda>c. c \<noteq> 0 \<and> ws_readyState (sockets fourClients c) = 1) [0, 1, 2, 3])
                 @ map (ClientsDelete ''repo-7-foo.ts'')
                     (filter (\<lambda>c. c \<noteq> 0 \<and> (ws_readyState (sockets fourClients c) \<noteq> 1 \<or> c = 2))
                        [0, 1, 2, 3]))"
    and r: "map_of (rooms s') ''repo-7-foo.ts''
             = Some (\<lparr>room_id = ''repo-7-foo.ts'', room_clients = [0, 1, 2, 3],
                       room_createdAt = 1000, room_lastActivity = 1000\<rparr>
                     \<lparr>room_clients :=
                        filter (\<lambda>c. \<not> (c \<noteq> 0 \<and> (ws_readyState (sockets fourClients c) \<noteq> 1 \<or> c = 2)))
                          [0, 1, 2, 3],
                      room_lastActivity := 5000\<rparr>)"
    using broadcast_counts_deliveries[OF fourClients_room, of toyY "\<lambda>c. c = 2" 5000
            "[0, 104, 105]" 0]
    by auto
  have b': "broadcast toyY (\<lambda>c. c = 2) 5000 ''repo-7-foo.ts'' [0, 104, 105] 0 fourClients
           = Inr (1, s',
                 [HandleYjsMessage ''repo-7-foo.ts'' [0, 104, 105],
                  WsSend 1 [0, 104, 105] True, WsSend 2 [0, 104, 105] False,
                  ClientsDelete ''repo-7-foo.ts'' 2, ClientsDelete ''repo-7-foo.ts'' 3])"
    unfolding b using editor_foo
    by (simp add: fourClients_def newServer_def acceptedSocket_def)
  have r': "map_option room_clients (map_of (rooms s') ''repo-7-foo.ts'') = Some [0, 1]"
    unfolding r by (simp add: fourClients_def newServer_def acceptedSocket_def)
  from b' r' show ?thesis by blast
qed

text \<open>
  The id \<^verbatim>\<open>repo-7\<close>, which the server admits, is not a code-editor room for
  \<^const>\<open>broadcast\<close>: its messages are relayed and not mirrored into a document.
\<close>

lemma repo7_not_mirrored: "isAllowedRoom ''repo-7'' \<and> \<not> SaveManager_isCodeEditorRoom ''repo-7''"
  by code_simp

section \<open>Grace timers\<close>

lemma addClient_eq:
  assumes "map_of (gracePeriods s) roomId = Some timeout"
  shows "addClient now roomId client s =
     (let s1 = s\<lparr>timers := AList.delete timeout (timers s),
                  gracePeriods := AList.delete roomId (gracePeriods s)\<rparr>;
          room = (case map_of (rooms s) roomId of
                    None \<Rightarrow> \<lparr>room_id = roomId, room_clients = [],
                              room_createdAt = now, room_lastActivity = now\<rparr>
                  | Some r \<Rightarrow> r)
      in if client \<in> set (room_clients room)
         then (getActiveClientCount s1 roomId, s1, [ClearTimeout timeout])
         else (getActiveClientCount
                 (s1\<lparr>rooms := AList.update roomId
                        (room\<lparr>room_clients := room_clients room @ [client],
                              room_lastActivity := now\<rparr>) (rooms s)\<rparr>) roomId,
               s1\<lparr>rooms := AList.update roomId
                        (room\<lparr>room_clients := room_clients room @ [client],
                              room_lastActivity := now\<rparr>) (rooms s)\<rparr>,
               [ClearTimeout timeout, ClientsAdd roomId client]))"
  unfolding addClient_def Let_def using assms
  by (auto simp: update_conv' split: option.splits)

text \<open>
  What \<^const>\<open>addClient\<close> does for a room that has a timer in \<^verbatim>\<open>gracePeriods\<close>: the timer
  is cleared and its entry deleted before the client is inserted; afterwards the callback
  of that timer can run at no time, the room exists and the client is a member. When the
  registered timer was the only pending timer of the room, no pending timer of the room is
  left.
\<close>

theorem addClient_cancels_grace_timer:
  assumes "map_of (gracePeriods s) roomId = Some timeout"
  shows "\<exists>n s' ev.
           addClient now roomId client s = (n, s', ClearTimeout timeout # ev)
         \<and> ev = (if \<exists>room. map_of (rooms s) roomId = Some room \<and> client \<in> set (room_clients room)
                 then [] else [ClientsAdd roomId client])
         \<and> map_of (gracePeriods s') roomId = None
         \<and> map_of (timers s') timeout = None
         \<and> (\<forall>t. graceTimeout t timeout s' = None)
         \<and> (\<exists>room. map_of (rooms s') roomId = Some room \<and> client \<in> set (room_clients room))
         \<and> ((\<forall>t d. map_of (timers s) t = Some (d, roomId) \<longrightarrow> t = timeout) \<longrightarrow>
              (\<forall>t d. map_of (timers s') t \<noteq> Some (d, roomId)))"
proof (cases "\<exists>room. map_of (rooms s) roomId = Some room \<and> client \<in> set (room_clients room)")
  case True
  then show ?thesis
    unfolding addClient_eq[OF assms] Let_def
    by (auto simp: delete_conv' graceTimeout_def)
next
  case False
  then show ?thesis
    unfolding addClient_eq[OF assms] Let_def
    by (auto simp: delete_conv' update_conv' graceTimeout_def split: option.splits)
qed

lemma allowed_foo: "isAllowedRoom ''repo-7-foo.ts''"
  by code_simp

lemma not_filetree_foo: "\<not> SaveManager_isFileTreeRoom ''repo-7-foo.ts''"
  by code_simp

lemma armed_fields:
  "gracePeriods armed = [(''repo-7-foo.ts'', 0)]"
  "timers armed = [(0, 122000, ''repo-7-foo.ts'')]"
  "rooms armed = [(''repo-7-foo.ts'', \<lparr>room_id = ''repo-7-foo.ts'', room_clients = [],
                     room_createdAt = 1000, room_lastActivity = 2000\<rparr>)]"
  using allowed_foo editor_foo not_filetree_foo
  by (simp_all add: armed_def handleClientConnection_def Let_def trackConnection_def
        MAX_CONNECTIONS_PER_IP_PER_ROOM_def newServer_def getActiveClientCount_def addClient_def
        removeClient_def startGracePeriod_def)

lemma armed_fires:
  "map_option (\<lambda>r. (rooms (fst r), snd r)) (graceTimeout 122000 0 armed) = Some ([], [])"
  using editor_foo
  by (simp add: graceTimeout_def armed_fields getActiveClientCount_def cleanupRoom_def Let_def)

theorem addClient_cancels_grace_timer_witness:
  "map_of (timers armed) 0 = Some (2000 + 120000, ''repo-7-foo.ts'')
   \<and> graceTimeout (2000 + 119999) 0 armed = None
   \<and> map_option (\<lambda>r. rooms (fst r)) (graceTimeout (2000 + 120000) 0 armed) = Some []
   \<and> (\<exists>n s'. addClient (2000 + 119999) ''repo-7-foo.ts'' 1 armed
                = (n, s', [ClearTimeout 0, ClientsAdd ''repo-7-foo.ts'' 1])
            \<and> graceTimeout (2000 + 120000) 0 s' = None
            \<and> map_option room_clients (map_of (rooms s') ''repo-7-foo.ts'') = Some [1])"
proof -
  have g: "map_of (gracePeriods armed) ''repo-7-foo.ts'' = Some 0"
    by (simp add: armed_fields)
  have a: "map_of (timers armed) 0 = Some (2000 + 120000, ''repo-7-foo.ts'')"
    by (simp add: armed_fields)
  have b: "graceTimeout (2000 + 119999) 0 armed = None"
    by (simp add: graceTimeout_def armed_fields)
  have c: "map_option (\<lambda>r. rooms (fst r)) (graceTimeout (2000 + 120000) 0 armed) = Some []"
    using armed_fires by (cases "graceTimeout 122000 0 armed") auto
  obtain n s' ev where
    1: "addClient (2000 + 119999) ''repo-7-foo.ts'' 1 armed = (n, s', ClearTimeout 0 # ev)"
    and 2: "ev = (if \<exists>room. map_of (rooms armed) ''repo-7-foo.ts'' = Some room \<and> 1 \<in> set (room_clients room)
                 then [] else [ClientsAdd ''repo-7-foo.ts'' 1])"
    and 3: "\<forall>t. graceTimeout t 0 s' = None"
    and 4: "\<exists>room. map_of (rooms s') ''repo-7-foo.ts'' = Some room \<and> 1 \<in> set (room_clients room)"
    using addClient_cancels_grace_timer[OF g, of "2000 + 119999" 1] by blast
  have ev: "ev = [ClientsAdd ''repo-7-foo.ts'' 1]"
    unfolding 2 by (simp add: armed_fields)
  have r: "map_option room_clients (map_of (rooms s') ''repo-7-foo.ts'') = Some [1]"
    using 1 g unfolding addClient_eq[OF g] Let_def
    by (auto simp: armed_fields)
  from 1 ev 3 r have "\<exists>n s'. addClient (2000 + 119999) ''repo-7-foo.ts'' 1 armed
                = (n, s', [ClearTimeout 0, ClientsAdd ''repo-7-foo.ts'' 1])
            \<and> graceTimeout (2000 + 120000) 0 s' = None
            \<and> map_option room_clients (map_of (rooms s') ''repo-7-foo.ts'') = Some [1]"
    by blast
  with a b c show ?thesis by blast
qed

lemma twoJoined_eq:
  "twoJoined =
     \<lparr>rooms = [(''repo-7-foo.ts'', \<lparr>room_id = ''repo-7-foo.ts'', room_clients = [10, 11],
                   room_createdAt = 1000, room_lastActivity = 1001\<rparr>)],
      gracePeriods = [],
      yjsManager = \<lparr>documents = [], documentStates = []\<rparr>,
      gracePeriodMs = 120000,
      connectionTracker = [(''10.0.0.1'', [(''repo-7-foo.ts'', 1)]), (''10.0.0.2'', [(''repo-7-foo.ts'', 1)])],
      sockets = (\<lambda>ws. acceptedSocket)
        (10 := joinedSocket ''client_1000_abc'' 1000 ''10.0.0.1'' True,
         11 := joinedSocket ''client_1001_def'' 1001 ''10.0.0.2'' True),
      timers = [], nextTimer = 0\<rparr>"
  using allowed_foo
  by (simp add: twoJoined_def handleClientConnection_def Let_def trackConnection_def
        MAX_CONNECTIONS_PER_IP_PER_ROOM_def newServer_def getActiveClientCount_def addClient_def
        isActiveClient_def acceptedSocket_def truthy_def joinedSocket_def)

lemma pinged_eq:
  "pinged =
     \<lparr>rooms = [(''repo-7-foo.ts'', \<lparr>room_id = ''repo-7-foo.ts'', room_clients = [10, 11],
                   room_createdAt = 1000, room_lastActivity = 1001\<rparr>)],
      gracePeriods = [],
      yjsManager = \<lparr>documents = [], documentStates = []\<rparr>,
      gracePeriodMs = 120000,
      connectionTracker = [(''10.0.0.1'', [(''repo-7-foo.ts'', 1)]), (''10.0.0.2'', [(''repo-7-foo.ts'', 1)])],
      sockets = (\<lambda>ws. acceptedSocket)
        (10 := joinedSocket ''client_1000_abc'' 1000 ''10.0.0.1'' False,
         11 := joinedSocket ''client_1001_def'' 1001 ''10.0.0.2'' False),
      timers = [], nextTimer = 0\<rparr>"
  by (simp add: pinged_def twoJoined_eq truthy_def joinedSocket_def)

lemma pinged_log: "snd (heartbeat [10, 11] twoJoined) = [WsPing 10, WsPing 11]"
  by (simp add: twoJoined_eq truthy_def joinedSocket_def)

lemma bothLeft_eq:
  "bothLeft =
     \<lparr>rooms = [(''repo-7-foo.ts'', \<lparr>room_id = ''repo-7-foo.ts'', room_clients = [],
                   room_createdAt = 1000, room_lastActivity = 30002\<rparr>)],
      gracePeriods = [(''repo-7-foo.ts'', Suc 0)],
      yjsManager = \<lparr>documents = [], documentStates = []\<rparr>,
      gracePeriodMs = 120000,
      connectionTracker = [],
      sockets = (\<lambda>ws. acceptedSocket)
        (10 := joinedSocket ''client_1000_abc'' 1000 ''10.0.0.1'' False,
         11 := joinedSocket ''client_1001_def'' 1001 ''10.0.0.2'' False),
      timers = [(0, 150001, ''repo-7-foo.ts''), (Suc 0, 150002, ''repo-7-foo.ts'')],
      nextTimer = Suc (Suc 0)\<rparr>"
  using editor_foo not_filetree_foo
  by (simp add: bothLeft_def pinged_eq handleClientDisconnection_def removeClient_def
        startGracePeriod_def getActiveClientCount_def isActiveClient_def truthy_def
        joinedSocket_def untrackConnection_def Let_def)


lemma rejoined_eq:
  "rejoined =
     \<lparr>rooms = [(''repo-7-foo.ts'', \<lparr>room_id = ''repo-7-foo.ts'', room_clients = [12],
                   room_createdAt = 1000, room_lastActivity = 50000\<rparr>)],
      gracePeriods = [],
      yjsManager = \<lparr>documents = [], documentStates = []\<rparr>,
      gracePeriodMs = 120000,
      connectionTracker = [(''10.0.0.3'', [(''repo-7-foo.ts'', 1)])],
      sockets = (\<lambda>ws. acceptedSocket)
        (10 := joinedSocket ''client_1000_abc'' 1000 ''10.0.0.1'' False,
         11 := joinedSocket ''client_1001_def'' 1001 ''10.0.0.2'' False,
         12 := joinedSocket ''client_50000_ghi'' 50000 ''10.0.0.3'' True),
      timers = [(0, 150001, ''repo-7-foo.ts'')],
      nextTimer = Suc (Suc 0)\<rparr>"
  using allowed_foo
  by (simp add: rejoined_def bothLeft_eq handleClientConnection_def Let_def trackConnection_def
        MAX_CONNECTIONS_PER_IP_PER_ROOM_def getActiveClientCount_def addClient_def
        isActiveClient_def acceptedSocket_def truthy_def joinedSocket_def)

lemma rejoined_log:
  "snd (handleClientConnection 50 50000 ''client_50000_ghi'' 12
          \<lparr>url = Some ''/repo-7-foo.ts'', remoteAddress = Some ''10.0.0.3''\<rparr> bothLeft)
     = [TrackConnection ''10.0.0.3'' ''repo-7-foo.ts'' True, ClearTimeout (Suc 0),
        ClientsAdd ''repo-7-foo.ts'' 12]"
  using allowed_foo
  by (simp add: bothLeft_eq handleClientConnection_def Let_def trackConnection_def
        MAX_CONNECTIONS_PER_IP_PER_ROOM_def getActiveClientCount_def addClient_def
        isActiveClient_def acceptedSocket_def truthy_def joinedSocket_def)

lemma pingedAgain_eq:
  "pingedAgain =
     \<lparr>rooms = [(''repo-7-foo.ts'', \<lparr>room_id = ''repo-7-foo.ts'', room_clients = [12],
                   room_createdAt = 1000, room_lastActivity = 50000\<rparr>)],
      gracePeriods = [],
      yjsManager = \<lparr>documents = [], documentStates = []\<rparr>,
      gracePeriodMs = 120000,
      connectionTracker = [(''10.0.0.3'', [(''repo-7-foo.ts'', 1)])],
      sockets = (\<lambda>ws. acceptedSocket)
        (10 := joinedSocket ''client_1000_abc'' 1000 ''10.0.0.1'' False,
         11 := joinedSocket ''client_1001_def'' 1001 ''10.0.0.2'' False,
         12 := joinedSocket ''client_50000_ghi'' 50000 ''10.0.0.3'' False),
      timers = [(0, 150001, ''repo-7-foo.ts'')],
      nextTimer = Suc (Suc 0)\<rparr>"
  by (simp add: pingedAgain_def rejoined_eq truthy_def joinedSocket_def)

lemma pingedAgain_log: "snd (heartbeat [12] rejoined) = [WsPing 12]"
  by (simp add: rejoined_eq truthy_def joinedSocket_def)

lemma orphan_fires:
  "map_option snd (graceTimeout 150001 0 pingedAgain) = Some [WsClose 12 1000 ''Room cleanup'']"
  "map_option (rooms \<circ> fst) (graceTimeout 150001 0 pingedAgain) = Some []"
  using editor_foo
  by (simp_all add: graceTimeout_def pingedAgain_eq getActiveClientCount_def isActiveClient_def
        cleanupRoom_def ws_close_def joinedSocket_def Let_def)

lemma orphan_idle:
  "map_option snd (graceTimeout 150001 0 rejoined) = Some []"
  "map_option (map fst \<circ> rooms \<circ> fst) (graceTimeout 150001 0 rejoined) = Some [''repo-7-foo.ts'']"
  by (simp_all add: graceTimeout_def rejoined_eq getActiveClientCount_def isActiveClient_def
        truthy_def joinedSocket_def Let_def)

text \<open>
  Claim C6 fails on the code. \<^const>\<open>startGracePeriod\<close> stores the new timer over the one
  \<^verbatim>\<open>gracePeriods\<close> holds without clearing it, and \<^const>\<open>removeClient\<close> starts a grace period
  whenever no active client is left, also with a member in the room that has not answered
  its ping yet. In the run below two clients leave between a ping and its pongs: two timers
  are pending and \<^verbatim>\<open>gracePeriods\<close> holds the second. A client joins at 50000, long before
  either deadline: \<^const>\<open>addClient\<close> clears the second timer only. The first timer runs at its
  deadline, just after the heartbeat pinged the new client: it counts no active client,
  closes the new client with 1000 (\<^verbatim>\<open>Room cleanup\<close>) and deletes the room.
\<close>

theorem orphan_grace_timer_destroys_room:
  "snd (heartbeat [10, 11] twoJoined) = [WsPing 10, WsPing 11]
   \<and> timers bothLeft = [(0, 30001 + 120000, ''repo-7-foo.ts''), (1, 30002 + 120000, ''repo-7-foo.ts'')]
   \<and> gracePeriods bothLeft = [(''repo-7-foo.ts'', 1)]
   \<and> snd (handleClientConnection 50 50000 ''client_50000_ghi'' 12
            \<lparr>url = Some ''/repo-7-foo.ts'', remoteAddress = Some ''10.0.0.3''\<rparr> bothLeft)
       = [TrackConnection ''10.0.0.3'' ''repo-7-foo.ts'' True, ClearTimeout 1,
          ClientsAdd ''repo-7-foo.ts'' 12]
   \<and> gracePeriods rejoined = []
   \<and> timers rejoined = [(0, 30001 + 120000, ''repo-7-foo.ts'')]
   \<and> map_option room_clients (map_of (rooms rejoined) ''repo-7-foo.ts'') = Some [12]
   \<and> isActiveClient (sockets rejoined 12)
   \<and> snd (heartbeat [12] rejoined) = [WsPing 12]
   \<and> map_option snd (graceTimeout (30001 + 120000) 0 pingedAgain)
       = Some [WsClose 12 1000 ''Room cleanup'']
   \<and> map_option (rooms \<circ> fst) (graceTimeout (30001 + 120000) 0 pingedAgain) = Some []"
proof -
  have a: "snd (heartbeat [10, 11] twoJoined) = [WsPing 10, WsPing 11]" by (rule pinged_log)
  have b: "timers bothLeft = [(0, 30001 + 120000, ''repo-7-foo.ts''), (1, 30002 + 120000, ''repo-7-foo.ts'')]"
    by (simp add: bothLeft_eq)
  have c: "gracePeriods bothLeft = [(''repo-7-foo.ts'', 1)]" by (simp add: bothLeft_eq)
  have d: "snd (handleClientConnection 50 50000 ''client_50000_ghi'' 12
            \<lparr>url = Some ''/repo-7-foo.ts'', remoteAddress = Some ''10.0.0.3''\<rparr> bothLeft)
       = [TrackConnection ''10.0.0.3'' ''repo-7-foo.ts'' True, ClearTimeout 1,
          ClientsAdd ''repo-7-foo.ts'' 12]"
    unfolding rejoined_log by simp
  have e: "gracePeriods rejoined = []" by (simp add: rejoined_eq)
  have f: "timers rejoined = [(0, 30001 + 120000, ''repo-7-foo.ts'')]" by (simp add: rejoined_eq)
  have g: "map_option room_clients (map_of (rooms rejoined) ''repo-7-foo.ts'') = Some [12]"
    by (simp add: rejoined_eq)
  have h: "isActiveClient (sockets rejoined 12)"
    by (simp add: rejoined_eq isActiveClient_def joinedSocket_def truthy_def)
  have i: "snd (heartbeat [12] rejoined) = [WsPing 12]" by (rule pingedAgain_log)
  have t: "30001 + 120000 = (150001 :: nat)" by simp
  have j: "map_option snd (graceTimeout (30001 + 120000) 0 pingedAgain)
       = Some [WsClose 12 1000 ''Room cleanup'']"
    unfolding t by (rule orphan_fires(1))
  have k: "map_option (rooms \<circ> fst) (graceTimeout (30001 + 120000) 0 pingedAgain) = Some []"
    unfolding t by (rule orphan_fires(2))
  show ?thesis
    by (intro conjI) (fact a, fact b, fact c, fact d, fact e, fact f, fact g, fact h, fact i,
        fact j, fact k)
qed

end
